theory Spec2Isabelle
  imports Complex_Main "HOL-Library.AList" "HOL-Library.Multiset" "HOL-Library.Log_Nat"
begin

section \<open>Floating-point cells and data frames\<close>

text \<open>
  A cell of a numeric pandas column is a float: not-a-number, an infinity, or a finite
  value, given by the rational number it denotes (negative zero does not occur in the
  columns the analyzer computes). Every comparison with NaN is false, as in Python.
\<close>

datatype pyfloat = NaN | NegInf | Fin rat | PosInf

fun flt :: "pyfloat \<Rightarrow> pyfloat \<Rightarrow> bool" where
  "flt (Fin a) (Fin b) = (a < b)"
| "flt NegInf (Fin b) = True"
| "flt NegInf PosInf = True"
| "flt (Fin a) PosInf = True"
| "flt _ _ = False"

fun feq :: "pyfloat \<Rightarrow> pyfloat \<Rightarrow> bool" where
  "feq (Fin a) (Fin b) = (a = b)"
| "feq NegInf NegInf = True"
| "feq PosInf PosInf = True"
| "feq _ _ = False"

definition fle :: "pyfloat \<Rightarrow> pyfloat \<Rightarrow> bool" where
  "fle x y = (flt x y \<or> feq x y)"

text \<open>
  The result of a float operation is the exact result rounded to the nearest binary64
  number, ties to the even significand: for \<open>x \<noteq> 0\<close> with
  \<open>2 ^ k \<le> |x| < 2 ^ (k + 1)\<close> the significand is \<open>|x| / 2 ^ (k - 52)\<close> rounded to an
  integer. The exponent range is left unbounded: overflow and underflow need magnitudes
  of 2 ^ 1024 and 2 ^ -1074, which a quotient of the counts of a table does not reach.
\<close>

definition round_half_even :: "rat \<Rightarrow> int" where
  "round_half_even x =
     (let f = \<lfloor>x\<rfloor>; d = x - of_int f
      in if d < 1 / 2 then f else if 1 / 2 < d then f + 1 else if even f then f else f + 1)"

text \<open>
  \<open>ilog2 x\<close> is the k with \<open>2 ^ k \<le> x < 2 ^ (k + 1)\<close> for a positive \<open>x = p / q\<close>: the
  bit lengths of p and q leave two candidates.
\<close>

definition ilog2 :: "rat \<Rightarrow> int" where
  "ilog2 x =
     (let k = bitlen (fst (quotient_of x)) - bitlen (snd (quotient_of x))
      in if power_int 2 k \<le> x then k else k - 1)"

definition float64 :: "rat \<Rightarrow> rat" where
  "float64 x =
     (if x = 0 then 0
      else let e = ilog2 \<bar>x\<bar> - 52
           in sgn x * of_int (round_half_even (\<bar>x\<bar> / power_int 2 e)) * power_int 2 e)"

text \<open>Float division as numpy performs it on a column (no exception on a zero divisor).\<close>

fun fdiv :: "pyfloat \<Rightarrow> pyfloat \<Rightarrow> pyfloat" where
  "fdiv NaN _ = NaN"
| "fdiv _ NaN = NaN"
| "fdiv (Fin a) (Fin b) =
     (if b \<noteq> 0 then Fin (float64 (a / b))
      else if a = 0 then NaN else if 0 < a then PosInf else NegInf)"
| "fdiv (Fin a) _ = Fin 0"
| "fdiv PosInf (Fin b) = (if 0 \<le> b then PosInf else NegInf)"
| "fdiv NegInf (Fin b) = (if 0 \<le> b then NegInf else PosInf)"
| "fdiv _ _ = NaN"

text \<open>
  \<open>Series.replace(0, 0.1)\<close>: every cell equal to 0 becomes 0.1, the binary64 number the
  literal denotes.
\<close>

definition replace_zero :: "pyfloat \<Rightarrow> pyfloat" where
  "replace_zero x = (if feq x (Fin 0) then Fin (float64 (1 / 10)) else x)"

text \<open>\<open>Series.clip(lower, upper)\<close>: NaN stays NaN.\<close>

fun clip :: "rat \<Rightarrow> rat \<Rightarrow> pyfloat \<Rightarrow> pyfloat" where
  "clip lo hi NaN = NaN"
| "clip lo hi NegInf = Fin lo"
| "clip lo hi PosInf = Fin hi"
| "clip lo hi (Fin x) = Fin (min (max x lo) hi)"

text \<open>
  A data frame: the length of its index and its columns in order, looked up by name.
  In a well-formed frame every column has one cell per row.
\<close>

record dataframe =
  nrows :: nat
  cols :: "(string \<times> pyfloat list) list"

definition wf_df :: "dataframe \<Rightarrow> bool" where
  "wf_df df = list_all (\<lambda>c. length (snd c) = nrows df) (cols df)"

definition column :: "dataframe \<Rightarrow> string \<Rightarrow> pyfloat list option" where
  "column df name = map_of (cols df) name"

text \<open>\<open>df[name] = values\<close>: replaces the column in place, or appends a new one.\<close>

definition set_column :: "string \<Rightarrow> pyfloat list \<Rightarrow> dataframe \<Rightarrow> dataframe" where
  "set_column name values df = df\<lparr>cols := AList.update name values (cols df)\<rparr>"

text \<open>\<open>df.empty\<close>: an axis of length 0.\<close>

definition df_empty :: "dataframe \<Rightarrow> bool" where
  "df_empty df = (nrows df = 0 \<or> cols df = [])"

section \<open>Errors\<close>

datatype value_error =
    Missing_required_columns "string set"
  | Invalid_window int
  | Cannot_convert_to_integer

datatype error = ValueError value_error | OverflowError | IndexError | KeyError string

section \<open>The accumulation analyzer\<close>

text \<open>
  The analyzer's attributes are read from the configuration at construction; they are
  parameters here. A phase's description is the literal the constructor gives it.
\<close>

record analyzer =
  window :: int
  stoch_oversold :: rat
  rsi_oversold :: rat
  early_min_ratio :: rat
  early_max_rsi :: rat
  early_points :: int
  mid_min_ratio :: rat
  mid_max_ratio :: rat
  mid_max_rsi :: rat
  mid_points :: int
  late_min_ratio :: rat
  late_max_ratio :: rat
  late_min_rsi :: rat
  late_max_rsi :: rat
  late_points :: int
  breakout_min_ratio :: rat
  breakout_max_ratio :: rat
  breakout_min_rsi :: rat
  breakout_points :: int

text \<open>
  Modelled from the spec: the configuration module (src/config) is missing; these are the
  values the module's documentation and the spec give (window about 50 bars, thresholds
  20 and 30, tiers 18/14/10/6 with ratio cutoffs 5.0, 3.0, 1.5, 0.8), each the binary64
  number its literal denotes.
\<close>

definition default_analyzer :: analyzer where
  "default_analyzer = \<lparr>
     window = 50, stoch_oversold = 20, rsi_oversold = 30,
     early_min_ratio = 5, early_max_rsi = 45, early_points = 18,
     mid_min_ratio = 3, mid_max_ratio = 5, mid_max_rsi = 50, mid_points = 14,
     late_min_ratio = 3 / 2, late_max_ratio = 3, late_min_rsi = 40, late_max_rsi = 55,
     late_points = 10,
     breakout_min_ratio = float64 (4 / 5), breakout_max_ratio = 3 / 2, breakout_min_rsi = 50,
     breakout_points = 6 \<rparr>"

subsection \<open>calculate_ratio_series\<close>

definition required_cols :: "string list" where
  "required_cols = [''stoch_rsi'', ''rsi'']"

text \<open>\<open>set(required_cols) - set(df.columns)\<close>\<close>

definition missing_cols :: "dataframe \<Rightarrow> string set" where
  "missing_cols df = set (filter (\<lambda>c. column df c = None) required_cols)"

text \<open>\<open>(series < threshold).astype(int)\<close>\<close>

definition oversold_flags :: "rat \<Rightarrow> pyfloat list \<Rightarrow> nat list" where
  "oversold_flags threshold xs = map (\<lambda>x. if flt x (Fin threshold) then 1 else 0) xs"

text \<open>
  \<open>series.rolling(window, min_periods).sum()\<close> of pandas on an integer series: the bar
  at position i sums the last \<open>window\<close> bars up to and including i, and is NaN when
  fewer than \<open>min_periods\<close> bars are there.
\<close>

definition trailing :: "nat \<Rightarrow> nat \<Rightarrow> 'a list \<Rightarrow> 'a list" where
  "trailing w i xs = drop (Suc i - w) (take (Suc i) xs)"

definition rolling_sum :: "nat \<Rightarrow> nat \<Rightarrow> nat list \<Rightarrow> pyfloat list" where
  "rolling_sum w min_periods xs =
     map (\<lambda>i. let win = trailing w i xs
               in if length win < min_periods then NaN else Fin (of_nat (sum_list win)))
         [0..<length xs]"

text \<open>
  One bar's ratio: the quotient with zero divisors replaced, the assignment of 0 where
  both counts equal 0, then the clip.
\<close>

definition ratio_of_counts :: "pyfloat \<Rightarrow> pyfloat \<Rightarrow> pyfloat" where
  "ratio_of_counts s r =
     clip 0 20 (if feq s (Fin 0) \<and> feq r (Fin 0) then Fin 0 else fdiv s (replace_zero r))"

definition calculate_ratio_series ::
  "analyzer \<Rightarrow> dataframe \<Rightarrow> int option \<Rightarrow> error + dataframe" where
  "calculate_ratio_series self df window_arg =
     (let w = (case window_arg of None \<Rightarrow> window self | Some v \<Rightarrow> v) in
      if missing_cols df \<noteq> {} then Inl (ValueError (Missing_required_columns (missing_cols df)))
      else
        (case (column df ''stoch_rsi'', column df ''rsi'') of
           (Some stoch_col, Some rsi_col) \<Rightarrow>
             if w < 0 then Inl (ValueError (Invalid_window w))
             else
               let stoch_oversold_flags = oversold_flags (stoch_oversold self) stoch_col;
                   rsi_oversold_flags = oversold_flags (rsi_oversold self) rsi_col;
                   stoch_signals = rolling_sum (nat w) (nat (w div 2)) stoch_oversold_flags;
                   rsi_signals = rolling_sum (nat w) (nat (w div 2)) rsi_oversold_flags;
                   accumulation_ratio = map2 ratio_of_counts stoch_signals rsi_signals
               in Inr (set_column ''accumulation_ratio'' accumulation_ratio
                        (set_column ''rsi_signals'' rsi_signals
                          (set_column ''stoch_signals'' stoch_signals df)))
         | (None, _) \<Rightarrow> Inl (KeyError ''stoch_rsi'')
         | (_, None) \<Rightarrow> Inl (KeyError ''rsi'')))"

subsection \<open>classify_phase\<close>

datatype phase = Early | Mid | Late | Breakout | NoPhase

record phase_info =
  pi_phase :: phase
  pi_points :: int
  pi_description :: string

text \<open>
  The chained comparison \<open>a <= x < b\<close> is \<open>a <= x and x < b\<close>. The constructor
  gives every tier the keys its test reads, so no default of \<open>dict.get\<close> is used.
\<close>

definition classify_phase :: "analyzer \<Rightarrow> pyfloat \<Rightarrow> pyfloat \<Rightarrow> phase_info" where
  "classify_phase self ratio_v rsi_v =
     (if fle (Fin (early_min_ratio self)) ratio_v \<and> fle rsi_v (Fin (early_max_rsi self))
      then \<lparr>pi_phase = Early, pi_points = early_points self,
             pi_description = ''Early Accumulation - Best Entry''\<rparr>
      else if fle (Fin (mid_min_ratio self)) ratio_v \<and> flt ratio_v (Fin (mid_max_ratio self))
              \<and> fle rsi_v (Fin (mid_max_rsi self))
      then \<lparr>pi_phase = Mid, pi_points = mid_points self,
             pi_description = ''Mid Accumulation - High Probability''\<rparr>
      else if fle (Fin (late_min_ratio self)) ratio_v \<and> flt ratio_v (Fin (late_max_ratio self))
              \<and> fle (Fin (late_min_rsi self)) rsi_v \<and> fle rsi_v (Fin (late_max_rsi self))
      then \<lparr>pi_phase = Late, pi_points = late_points self,
             pi_description = ''Late Accumulation - Setup Maturing''\<rparr>
      else if fle (Fin (breakout_min_ratio self)) ratio_v
              \<and> flt ratio_v (Fin (breakout_max_ratio self))
              \<and> fle (Fin (breakout_min_rsi self)) rsi_v
      then \<lparr>pi_phase = Breakout, pi_points = breakout_points self,
             pi_description = ''Breakout - Confirmed but Late''\<rparr>
      else \<lparr>pi_phase = NoPhase, pi_points = 0,
             pi_description = ''No Accumulation Detected''\<rparr>)"

text \<open>
  The specification's reading of the classifier: the tiers in their priority order, each
  with a ratio range, an RSI bound and a fixed result; the first tier that matches wins.
\<close>

definition tier_order :: "phase list" where
  "tier_order = [Early, Mid, Late, Breakout]"

fun ratio_in_range :: "analyzer \<Rightarrow> phase \<Rightarrow> pyfloat \<Rightarrow> bool" where
  "ratio_in_range self Early x = fle (Fin (early_min_ratio self)) x"
| "ratio_in_range self Mid x =
     (fle (Fin (mid_min_ratio self)) x \<and> flt x (Fin (mid_max_ratio self)))"
| "ratio_in_range self Late x =
     (fle (Fin (late_min_ratio self)) x \<and> flt x (Fin (late_max_ratio self)))"
| "ratio_in_range self Breakout x =
     (fle (Fin (breakout_min_ratio self)) x \<and> flt x (Fin (breakout_max_ratio self)))"
| "ratio_in_range self NoPhase x = True"

fun rsi_in_bound :: "analyzer \<Rightarrow> phase \<Rightarrow> pyfloat \<Rightarrow> bool" where
  "rsi_in_bound self Early y = fle y (Fin (early_max_rsi self))"
| "rsi_in_bound self Mid y = fle y (Fin (mid_max_rsi self))"
| "rsi_in_bound self Late y =
     (fle (Fin (late_min_rsi self)) y \<and> fle y (Fin (late_max_rsi self)))"
| "rsi_in_bound self Breakout y = fle (Fin (breakout_min_rsi self)) y"
| "rsi_in_bound self NoPhase y = True"

fun tier_points :: "analyzer \<Rightarrow> phase \<Rightarrow> int" where
  "tier_points self Early = early_points self"
| "tier_points self Mid = mid_points self"
| "tier_points self Late = late_points self"
| "tier_points self Breakout = breakout_points self"
| "tier_points self NoPhase = 0"

fun tier_description :: "phase \<Rightarrow> string" where
  "tier_description Early = ''Early Accumulation - Best Entry''"
| "tier_description Mid = ''Mid Accumulation - High Probability''"
| "tier_description Late = ''Late Accumulation - Setup Maturing''"
| "tier_description Breakout = ''Breakout - Confirmed but Late''"
| "tier_description NoPhase = ''No Accumulation Detected''"

definition first_matching_tier :: "analyzer \<Rightarrow> pyfloat \<Rightarrow> pyfloat \<Rightarrow> phase option" where
  "first_matching_tier self ratio_v rsi_v =
     find (\<lambda>t. ratio_in_range self t ratio_v \<and> rsi_in_bound self t rsi_v) tier_order"

subsection \<open>analyze\<close>

record accumulation_result =
  res_phase :: phase
  res_ratio :: pyfloat
  res_points :: int
  res_description :: string
  res_stoch_signals :: int
  res_rsi_signals :: int
  res_rsi :: pyfloat
  res_history :: "pyfloat list"

definition empty_result :: accumulation_result where
  "empty_result = \<lparr>
     res_phase = NoPhase, res_ratio = Fin 0, res_points = 0,
     res_description = ''Insufficient Data'', res_stoch_signals = 0, res_rsi_signals = 0,
     res_rsi = Fin 50, res_history = [] \<rparr>"

definition bind_err :: "error + 'a \<Rightarrow> ('a \<Rightarrow> error + 'b) \<Rightarrow> error + 'b" where
  "bind_err m k = (case m of Inl e \<Rightarrow> Inl e | Inr v \<Rightarrow> k v)"

text \<open>\<open>int(x)\<close> of a float truncates towards zero; it raises on NaN and on an infinity.\<close>

fun float_to_int :: "pyfloat \<Rightarrow> error + int" where
  "float_to_int (Fin x) = Inr (if 0 \<le> x then \<lfloor>x\<rfloor> else \<lceil>x\<rceil>)"
| "float_to_int NaN = Inl (ValueError Cannot_convert_to_integer)"
| "float_to_int NegInf = Inl OverflowError"
| "float_to_int PosInf = Inl OverflowError"

definition get_column :: "dataframe \<Rightarrow> string \<Rightarrow> error + pyfloat list" where
  "get_column df name = (case column df name of None \<Rightarrow> Inl (KeyError name) | Some xs \<Rightarrow> Inr xs)"

text \<open>\<open>df.iloc[-1][name]\<close>: the cell of the last row.\<close>

definition latest_value :: "dataframe \<Rightarrow> string \<Rightarrow> error + pyfloat" where
  "latest_value df name =
     bind_err (get_column df name) (\<lambda>xs. if xs = [] then Inl IndexError else Inr (last xs))"

text \<open>\<open>series.tail(n).tolist()\<close>\<close>

definition tail :: "nat \<Rightarrow> 'a list \<Rightarrow> 'a list" where
  "tail n xs = drop (length xs - n) xs"

text \<open>
  The body of the \<open>try\<close> block of analyze. The symbol argument is only logged and is
  left out. The result dictionary is built last, so the conversions of the two counts
  to \<open>int\<close> are the last steps that can raise.
\<close>

definition analyze_body :: "analyzer \<Rightarrow> dataframe option \<Rightarrow> error + accumulation_result" where
  "analyze_body self df_arg =
     (case df_arg of
        None \<Rightarrow> Inr empty_result
      | Some df \<Rightarrow>
          if df_empty df then Inr empty_result
          else if missing_cols df \<noteq> {} then Inr empty_result
          else
            bind_err (calculate_ratio_series self df None) (\<lambda>df_with_ratio.
            bind_err (latest_value df_with_ratio ''accumulation_ratio'') (\<lambda>ratio_v.
            bind_err (latest_value df_with_ratio ''rsi'') (\<lambda>rsi_v.
            bind_err (latest_value df_with_ratio ''stoch_signals'') (\<lambda>stoch_v.
            bind_err (latest_value df_with_ratio ''rsi_signals'') (\<lambda>rsig_v.
            let info = classify_phase self ratio_v rsi_v in
            bind_err (get_column df_with_ratio ''accumulation_ratio'') (\<lambda>ratio_col.
            bind_err (float_to_int stoch_v) (\<lambda>stoch_n.
            bind_err (float_to_int rsig_v) (\<lambda>rsig_n.
              Inr \<lparr> res_phase = pi_phase info, res_ratio = ratio_v,
                    res_points = pi_points info, res_description = pi_description info,
                    res_stoch_signals = stoch_n, res_rsi_signals = rsig_n,
                    res_rsi = rsi_v, res_history = tail 10 ratio_col \<rparr>)))))))))"

text \<open>analyze: the \<open>except Exception\<close> handler returns the default result.\<close>

definition analyze :: "analyzer \<Rightarrow> dataframe option \<Rightarrow> error + accumulation_result" where
  "analyze self df_arg =
     (case analyze_body self df_arg of Inl e \<Rightarrow> Inr empty_result | Inr r \<Rightarrow> Inr r)"

subsection \<open>batch_analyze\<close>

text \<open>
  The loop over the items of the dictionary, for any per-symbol analysis \<open>f\<close>: what
  \<open>self.analyze\<close> is bound to when the loop runs. The handler of the loop body stores
  the default result for a symbol whose analysis raises.
\<close>

fun batch_loop ::
  "(dataframe option \<Rightarrow> string \<Rightarrow> error + accumulation_result) \<Rightarrow>
   (string \<times> dataframe option) list \<Rightarrow> (string \<rightharpoonup> accumulation_result) \<Rightarrow>
   (string \<rightharpoonup> accumulation_result)" where
  "batch_loop f [] results = results"
| "batch_loop f ((symb, df) # rest) results =
     batch_loop f rest
       (case f df symb of
          Inr r \<Rightarrow> results(symb \<mapsto> r)
        | Inl e \<Rightarrow> results(symb \<mapsto> empty_result))"

definition batch_analyze_with ::
  "(dataframe option \<Rightarrow> string \<Rightarrow> error + accumulation_result) \<Rightarrow>
   (string \<times> dataframe option) list \<Rightarrow> (string \<rightharpoonup> accumulation_result)" where
  "batch_analyze_with f data_dict = batch_loop f data_dict Map.empty"

definition batch_analyze ::
  "analyzer \<Rightarrow> (string \<times> dataframe option) list \<Rightarrow> (string \<rightharpoonup> accumulation_result)" where
  "batch_analyze self data_dict = batch_analyze_with (\<lambda>df symb. analyze self df) data_dict"

section \<open>The scoring engine and the watchlist pipeline\<close>

subsection \<open>Score and grade\<close>

datatype grade = Excellent | Strong | Good | Weak

text \<open>
  Modelled from the spec: src/screening/sabr20_engine.py (the Score class and the
  component scorers) is missing. Section 4.3 assigns the grade by closed-lower-bound
  bands, [80,100] Excellent, [65,80) Strong, [50,65) Good, else Weak; total_points
  ranges over [0,100], so only the lower bound of a band is tested.
\<close>

definition assign_grade :: "rat \<Rightarrow> grade" where
  "assign_grade tp =
     (if 80 \<le> tp then Excellent
      else if 65 \<le> tp then Strong
      else if 50 \<le> tp then Good
      else Weak)"

record score =
  symbol :: string
  total_points :: rat
  setup_grade :: grade

text \<open>
  Modelled from the spec: the construction of a Score (section 3: the grade is a pure
  function of total_points).
\<close>

definition make_score :: "string \<Rightarrow> rat \<Rightarrow> score" where
  "make_score name tp = \<lparr>symbol = name, total_points = tp, setup_grade = assign_grade tp\<rparr>"

subsection \<open>Component 1: setup strength\<close>






subsection \<open>Candidate scorer and parallel batch scorer\<close>

text \<open>A call of a collaborator either raises or returns.\<close>

datatype 'a outcome = Raised | Returned 'a

text \<open>
  Modelled from the spec: score_candidate of src/screening/watchlist.py, which is missing.
  Section 4.5: load, then aggregate; trigger, confirmation and regime are required, macro
  is optional; a missing required role, or any exception in load or score, gives None.
\<close>

definition score_candidate ::
  "(string \<Rightarrow> (string \<rightharpoonup> dataframe) outcome) \<Rightarrow>
   (string \<Rightarrow> (string \<rightharpoonup> dataframe) \<Rightarrow> score outcome) \<Rightarrow> string \<Rightarrow> score option" where
  "score_candidate load score_symbol name =
     (case load name of
        Raised \<Rightarrow> None
      | Returned dataset \<Rightarrow>
          if dataset ''trigger'' = None \<or> dataset ''confirmation'' = None
             \<or> dataset ''regime'' = None
          then None
          else (case score_symbol name dataset of Raised \<Rightarrow> None | Returned sc \<Rightarrow> Some sc))"

text \<open>
  Modelled from the spec: score_many of src/screening/watchlist.py, which is missing.
  Section 4.6: every symbol is dispatched onto a pool of at most max_workers workers;
  results are collected in completion order; a worker exception is contained and counts
  as None; only non-None Scores are returned. The worker is a parameter: it is
  score_candidate, or whatever stands in its place.
\<close>

definition contained :: "score option outcome \<Rightarrow> score option" where
  "contained out = (case out of Raised \<Rightarrow> None | Returned r \<Rightarrow> r)"

fun successful :: "(string \<Rightarrow> score option outcome) \<Rightarrow> string list \<Rightarrow> score list" where
  "successful worker [] = []"
| "successful worker (name # rest) =
     (case contained (worker name) of
        None \<Rightarrow> successful worker rest
      | Some sc \<Rightarrow> sc # successful worker rest)"

text \<open>
  A run of the pool: the queue of symbols not yet dispatched, the symbols running, the
  Scores collected so far, and the list returned at the end. A symbol is dispatched when
  a worker is free; any running symbol may complete next.
\<close>

inductive pool_run ::
  "(string \<Rightarrow> score option outcome) \<Rightarrow> nat \<Rightarrow> string list \<Rightarrow> string list \<Rightarrow>
   score list \<Rightarrow> score list \<Rightarrow> bool"
  for worker :: "string \<Rightarrow> score option outcome" and max_workers :: nat where
  finished: "pool_run worker max_workers [] [] collected collected"
| dispatch:
    "length running < max_workers \<Longrightarrow>
     pool_run worker max_workers queue (running @ [name]) collected result \<Longrightarrow>
     pool_run worker max_workers (name # queue) running collected result"
| complete:
    "i < length running \<Longrightarrow>
     pool_run worker max_workers queue (take i running @ drop (Suc i) running)
       (collected @ successful worker [running ! i]) result \<Longrightarrow>
     pool_run worker max_workers queue running collected result"

definition score_many ::
  "(string \<Rightarrow> score option outcome) \<Rightarrow> string list \<Rightarrow> nat \<Rightarrow> score list \<Rightarrow> bool" where
  "score_many worker symbols max_workers result = pool_run worker max_workers symbols [] [] result"

subsection \<open>Watchlist pipeline\<close>

text \<open>
  The collaborators of the pipeline: the universe provider, the coarse filter, and the
  list the batch scorer returns for a candidate set.
\<close>

record pipeline_env =
  build_universe :: "string list"
  screen :: "string list \<Rightarrow> string list"
  score_batch :: "string list \<Rightarrow> score list"

text \<open>
  Modelled from the spec: generate of src/screening/watchlist.py, which is missing.
  Section 4.7: the universe is the caller's list or the provider's; the coarse filter
  narrows it unless skipped; the candidates are scored; Scores below min_score are
  dropped; the rest is sorted descending by total_points and truncated to max_symbols;
  an empty intermediate stage gives the empty watchlist. The spec leaves the order of
  ties open; the sort here keeps the batch order among equal totals.
\<close>

definition candidate_set :: "pipeline_env \<Rightarrow> string list option \<Rightarrow> bool \<Rightarrow> string list" where
  "candidate_set env universe_arg skip_coarse_filter =
     (let universe = (case universe_arg of Some u \<Rightarrow> u | None \<Rightarrow> build_universe env)
      in if universe = [] then []
         else if skip_coarse_filter then universe else screen env universe)"

definition rank :: "score list \<Rightarrow> score list" where
  "rank scores = sort_key (\<lambda>s. - total_points s) scores"

definition generate ::
  "pipeline_env \<Rightarrow> string list option \<Rightarrow> bool \<Rightarrow> nat \<Rightarrow> rat \<Rightarrow> score list" where
  "generate env universe_arg skip_coarse_filter max_symbols min_score =
     (let candidates = candidate_set env universe_arg skip_coarse_filter in
      if candidates = [] then []
      else
        let scores = score_batch env candidates;
            passing = filter (\<lambda>s. \<not> total_points s < min_score) scores
        in take max_symbols (rank passing))"

section \<open>Specification-level notions and example data\<close>

text \<open>
  The specification's words for the ratio. The count of a bar i over a window of w bars is
  the number of bars j with \<open>i - w < j \<le> i\<close> whose oscillator is below its threshold.
  The ratio is the float quotient of the fast count by the larger of the slow count and
  0.1, forced to 0 when both counts are 0 and clipped to [0,20].
\<close>

definition signal_count :: "rat \<Rightarrow> pyfloat list \<Rightarrow> nat \<Rightarrow> nat \<Rightarrow> nat" where
  "signal_count threshold xs w i =
     length (filter (\<lambda>j. flt (xs ! j) (Fin threshold)) [Suc i - w ..< Suc i])"

definition spec_ratio :: "nat \<Rightarrow> nat \<Rightarrow> rat" where
  "spec_ratio fast_count slow_count =
     min (max (if fast_count = 0 \<and> slow_count = 0 then 0
               else float64 (of_nat fast_count / max (of_nat slow_count) (float64 (1 / 10)))) 0) 20"

text \<open>What the handler of the batch loop leaves for a symbol.\<close>

definition contain :: "error + accumulation_result \<Rightarrow> accumulation_result" where
  "contain outcome = (case outcome of Inr r \<Rightarrow> r | Inl e \<Rightarrow> empty_result)"

text \<open>Example tables and configurations.\<close>

definition df_zero_stoch :: dataframe where
  "df_zero_stoch = \<lparr>nrows = 2,
     cols = [(''stoch_rsi'', [Fin 50, Fin 50]), (''rsi'', [Fin 20, Fin 20])]\<rparr>"

definition df_close_only :: dataframe where
  "df_close_only = \<lparr>nrows = 2, cols = [(''close'', [Fin 100, Fin 100])]\<rparr>"

definition small_window_analyzer :: analyzer where
  "small_window_analyzer = default_analyzer\<lparr>window := 2\<rparr>"

definition df_accumulating :: dataframe where
  "df_accumulating = \<lparr>nrows = 2,
     cols = [(''stoch_rsi'', [Fin 10, Fin 10]), (''rsi'', [Fin 40, Fin 40])]\<rparr>"

definition df_four_bars :: dataframe where
  "df_four_bars = \<lparr>nrows = 4,
     cols = [(''stoch_rsi'', [Fin 10, Fin 10, Fin 50, Fin 50]),
             (''rsi'', [Fin 20, Fin 20, Fin 20, Fin 20])]\<rparr>"

definition df_no_rows :: dataframe where
  "df_no_rows = \<lparr>nrows = 0, cols = []\<rparr>"

definition failing_on_bad :: "dataframe option \<Rightarrow> string \<Rightarrow> error + accumulation_result" where
  "failing_on_bad df name =
     (if name = ''BAD'' then Inl IndexError else analyze small_window_analyzer df)"

definition example_dict :: "(string \<times> dataframe option) list" where
  "example_dict = [(''GOOD'', Some df_accumulating), (''BAD'', Some df_no_rows)]"




definition full_dataset :: "string \<rightharpoonup> dataframe" where
  "full_dataset = map_of [(''trigger'', df_accumulating), (''confirmation'', df_accumulating),
     (''regime'', df_accumulating)]"

definition example_load :: "string \<Rightarrow> (string \<rightharpoonup> dataframe) outcome" where
  "example_load name = (if name = ''B'' then Raised else Returned full_dataset)"

definition example_score_symbol :: "string \<Rightarrow> (string \<rightharpoonup> dataframe) \<Rightarrow> score outcome" where
  "example_score_symbol name dataset = Returned (make_score name 70)"

definition example_worker :: "string \<Rightarrow> score option outcome" where
  "example_worker name = Returned (score_candidate example_load example_score_symbol name)"

definition example_env :: pipeline_env where
  "example_env = \<lparr>
     build_universe = [''AAPL'', ''MSFT'', ''GOOGL'', ''TSLA''],
     screen = (\<lambda>symbols. symbols),
     score_batch = (\<lambda>candidates. [make_score ''AAPL'' 85, make_score ''MSFT'' 70,
        make_score ''GOOGL'' 60, make_score ''TSLA'' 45]) \<rparr>"

definition tie_env :: pipeline_env where
  "tie_env = \<lparr>
     build_universe = [''AAPL'', ''MSFT''],
     screen = (\<lambda>symbols. symbols),
     score_batch = (\<lambda>candidates. [make_score ''AAPL'' 70, make_score ''MSFT'' 70]) \<rparr>"


section \<open>Lemmas about rounding\<close>

lemma round_half_even_ge_floor: "\<lfloor>x\<rfloor> \<le> round_half_even x"
  by (simp add: round_half_even_def Let_def)

lemma ilog2_le: "ilog2 x \<le> bitlen (fst (quotient_of x)) - bitlen (snd (quotient_of x))"
  by (simp add: ilog2_def Let_def)

lemma power_int_below_positive:
  assumes "0 < x"
  shows "power_int 2 (bitlen (fst (quotient_of x)) - bitlen (snd (quotient_of x)) - 1) \<le> x"
proof -
  obtain p q where pq: "quotient_of x = (p, q)" by (cases "quotient_of x")
  then have q: "0 < q" by (rule quotient_of_denom_pos)
  from pq have x: "x = of_int p / of_int q" by (rule quotient_of_div)
  with assms q have p: "0 < p" by (simp add: zero_less_divide_iff)
  from bitlen_bounds [OF p] have bp: "2 ^ nat (bitlen p - 1) \<le> p" by simp
  from bitlen_bounds [OF q] have bq: "q < 2 ^ nat (bitlen q)" by simp
  have p1: "1 \<le> bitlen p" using p by (simp add: bitlen_alt_def)
  have q0: "0 \<le> bitlen q" by (rule bitlen_nonneg)
  from bp have "of_int (2 ^ nat (bitlen p - 1)) \<le> (of_int p :: rat)" by (simp only: of_int_le_iff)
  then have lo: "(2::rat) ^ nat (bitlen p - 1) \<le> of_int p" by simp
  from bq have "(of_int q :: rat) < of_int (2 ^ nat (bitlen q))" by (simp only: of_int_less_iff)
  then have hi: "(of_int q :: rat) < 2 ^ nat (bitlen q)" by simp
  have d: "power_int (2::rat) ((bitlen p - 1) - bitlen q)
      = power_int 2 (bitlen p - 1) / power_int 2 (bitlen q)"
    by (rule power_int_diff) simp
  have "bitlen p - bitlen q - 1 = (bitlen p - 1) - bitlen q" by simp
  then have "power_int (2::rat) (bitlen p - bitlen q - 1)
      = power_int 2 (bitlen p - 1) / power_int 2 (bitlen q)"
    using d by (simp only:)
  also have "\<dots> = 2 ^ nat (bitlen p - 1) / 2 ^ nat (bitlen q)"
    using p1 q0 by (simp add: power_int_def)
  also have "\<dots> \<le> of_int p / 2 ^ nat (bitlen q)"
    using lo by (simp add: divide_right_mono)
  also have "\<dots> \<le> of_int p / of_int q"
    using hi q p by (simp add: frac_le)
  finally show ?thesis using pq x by simp
qed

lemma float64_zero: "float64 0 = 0"
  by (simp add: float64_def)

lemma float64_positive:
  assumes "0 < x"
  shows "0 < float64 x"
proof -
  define k where "k = bitlen (fst (quotient_of x)) - bitlen (snd (quotient_of x))"
  define e where "e = ilog2 x - 52"
  have "e \<le> k - 1" using ilog2_le [of x] by (simp add: e_def k_def)
  then have "power_int (2::rat) e \<le> power_int 2 (k - 1)"
    by (rule power_int_increasing) simp
  also have "\<dots> \<le> x" using power_int_below_positive [OF assms] by (simp add: k_def)
  finally have "1 \<le> x / power_int 2 e" by (simp add: le_divide_eq)
  then have "1 \<le> \<lfloor>x / power_int 2 e\<rfloor>" by simp
  then have "1 \<le> round_half_even (x / power_int 2 e)"
    using round_half_even_ge_floor [of "x / power_int 2 e"] by linarith
  then have "0 < (of_int (round_half_even (x / power_int 2 e)) :: rat) * power_int 2 e"
    by (simp add: zero_less_mult_iff)
  with assms show ?thesis
    by (simp add: float64_def Let_def e_def)
qed

lemma float64_tenth: "float64 (1 / 10) = 3602879701896397 / 36028797018963968"
  by code_simp

lemma float64_four_fifths: "float64 (4 / 5) = 3602879701896397 / 4503599627370496"
  by code_simp

section \<open>Lemmas about the ratio series and the batch loop\<close>

lemma column_set_column:
  "column (set_column n v df) m = (if m = n then Some v else column df m)"
  by (simp add: column_def set_column_def update_conv')

lemma nrows_set_column: "nrows (set_column n v df) = nrows df"
  by (simp add: set_column_def)

lemma wf_column_length:
  assumes "wf_df df" "column df n = Some xs"
  shows "length xs = nrows df"
proof -
  from assms(2) have "(n, xs) \<in> set (cols df)"
    by (simp add: column_def map_of_SomeD)
  with assms(1) show ?thesis
    by (auto simp: wf_df_def list_all_iff)
qed

lemma length_rolling_sum: "length (rolling_sum w m xs) = length xs"
  by (simp add: rolling_sum_def)

lemma length_trailing: "i < length xs \<Longrightarrow> length (trailing w i xs) = min w (Suc i)"
  by (auto simp: trailing_def)

lemma nth_rolling_sum:
  assumes "i < length xs"
  shows "rolling_sum w m xs ! i =
     (if min w (Suc i) < m then NaN else Fin (of_nat (sum_list (trailing w i xs))))"
  using assms by (simp add: rolling_sum_def Let_def length_trailing)

lemma trailing_map: "trailing w i (map f xs) = map f (trailing w i xs)"
  by (simp add: trailing_def take_map drop_map)

lemma sum_list_flags:
  "sum_list (map (\<lambda>x. if P x then 1 else 0) xs) = length (filter P xs)"
  by (induction xs) auto

lemma trailing_nth:
  assumes "i < length xs"
  shows "trailing w i xs = map ((!) xs) [Suc i - w ..< Suc i]"
proof -
  have "take (Suc i) xs = map ((!) xs) [0 ..< Suc i]"
    using assms by (intro nth_equalityI) (simp_all del: upt_Suc)
  then show ?thesis
    by (simp add: trailing_def drop_map drop_upt del: upt_Suc)
qed

lemma sum_trailing_flags:
  assumes "i < length xs"
  shows "sum_list (trailing w i (oversold_flags th xs)) = signal_count th xs w i"
proof -
  have "trailing w i (oversold_flags th xs)
      = map (\<lambda>x. if flt x (Fin th) then 1 else 0) (map ((!) xs) [Suc i - w ..< Suc i])"
    unfolding oversold_flags_def trailing_map trailing_nth [OF assms] ..
  then have "sum_list (trailing w i (oversold_flags th xs))
      = length (filter (\<lambda>x. flt x (Fin th)) (map ((!) xs) [Suc i - w ..< Suc i]))"
    by (simp only: sum_list_flags)
  then show ?thesis
    by (simp add: signal_count_def filter_map comp_def del: upt_Suc)
qed

lemma signal_count_card:
  "signal_count th xs w i = card {j. j \<le> i \<and> i < j + w \<and> flt (xs ! j) (Fin th)}"
proof -
  have "signal_count th xs w i
      = card ({j. flt (xs ! j) (Fin th)} \<inter> set [Suc i - w ..< Suc i])"
    unfolding signal_count_def by (rule distinct_length_filter) simp
  also have "{j. flt (xs ! j) (Fin th)} \<inter> set [Suc i - w ..< Suc i]
      = {j. j \<le> i \<and> i < j + w \<and> flt (xs ! j) (Fin th)}"
    by auto
  finally show ?thesis .
qed

lemma ratio_of_counts_nat:
  "ratio_of_counts (Fin (of_nat a)) (Fin (of_nat b)) = Fin (spec_ratio a b)"
proof (cases "b = 0")
  case True
  have "float64 (1 / 10) \<noteq> 0" by (simp add: float64_tenth)
  moreover have "max 0 (float64 (1 / 10)) = float64 (1 / 10)" by (simp add: float64_tenth)
  ultimately show ?thesis using True
    by (simp add: ratio_of_counts_def replace_zero_def spec_ratio_def float64_zero)
next
  case False
  then have "(1::rat) \<le> of_nat b" by (simp add: Suc_le_eq)
  then have "max (of_nat b) (float64 (1 / 10)) = of_nat b"
    by (simp add: float64_tenth max_def)
  with False show ?thesis
    by (simp add: ratio_of_counts_def replace_zero_def spec_ratio_def)
qed

lemma spec_ratio_bounds: "0 \<le> spec_ratio a b \<and> spec_ratio a b \<le> 20"
  by (simp add: spec_ratio_def)

lemma spec_ratio_zero_iff: "spec_ratio a b = 0 \<longleftrightarrow> a = 0"
proof (cases "a = 0")
  case True
  then show ?thesis by (simp add: spec_ratio_def float64_zero)
next
  case False
  define q :: rat where "q = of_nat a / max (of_nat b) (float64 (1 / 10))"
  have "(0::rat) < max (of_nat b) (float64 (1 / 10))"
    by (simp add: float64_tenth max_def)
  with False have "0 < q" unfolding q_def by simp
  then have "0 < float64 q" by (rule float64_positive)
  moreover from False have "spec_ratio a b = min (max (float64 q) 0) 20"
    unfolding q_def spec_ratio_def by simp
  ultimately show ?thesis using False by (simp add: min_def max_def)
qed

text \<open>Ratios of small counts, evaluated.\<close>

lemma ratio_of_counts_examples:
  "ratio_of_counts NaN NaN = NaN"
  "ratio_of_counts (Fin 0) (Fin 0) = Fin 0"
  "ratio_of_counts (Fin 0) (Fin 1) = Fin 0"
  "ratio_of_counts (Fin 0) (Fin 2) = Fin 0"
  "ratio_of_counts (Fin 1) (Fin 0) = Fin 10"
  "ratio_of_counts (Fin 2) (Fin 0) = Fin 20"
  "ratio_of_counts (Fin 1) (Fin 1) = Fin 1"
  "ratio_of_counts (Fin 2) (Fin 2) = Fin 1"
  "ratio_of_counts (Fin 2) (Fin 3) = Fin (6004799503160661 / 9007199254740992)"
  "ratio_of_counts (Fin 1) (Fin 3) = Fin (6004799503160661 / 18014398509481984)"
  by code_simp+

lemma missing_cols_iff:
  "missing_cols df \<noteq> {} \<longleftrightarrow> column df ''stoch_rsi'' = None \<or> column df ''rsi'' = None"
  by (auto simp: missing_cols_def required_cols_def)

lemma calculate_ratio_series_columns:
  assumes "calculate_ratio_series self df warg = Inr t"
  defines "w \<equiv> (case warg of None \<Rightarrow> window self | Some v \<Rightarrow> v)"
  shows "\<exists>sc rc ss rs.
     column df ''stoch_rsi'' = Some sc \<and> column df ''rsi'' = Some rc \<and> 0 \<le> w \<and>
     ss = rolling_sum (nat w) (nat (w div 2)) (oversold_flags (stoch_oversold self) sc) \<and>
     rs = rolling_sum (nat w) (nat (w div 2)) (oversold_flags (rsi_oversold self) rc) \<and>
     column t ''stoch_signals'' = Some ss \<and> column t ''rsi_signals'' = Some rs \<and>
     column t ''accumulation_ratio'' = Some (map2 ratio_of_counts ss rs) \<and>
     column t ''rsi'' = Some rc \<and> nrows t = nrows df"
proof -
  from assms(1) have m: "missing_cols df = {}"
    by (auto simp: calculate_ratio_series_def Let_def split: if_splits)
  then obtain sc rc where c: "column df ''stoch_rsi'' = Some sc" "column df ''rsi'' = Some rc"
    using missing_cols_iff [of df] by auto
  from assms(1) m c have w: "0 \<le> w"
    by (auto simp: calculate_ratio_series_def Let_def w_def split: if_splits)
  from assms(1) m c w have t: "t =
     set_column ''accumulation_ratio''
       (map2 ratio_of_counts
          (rolling_sum (nat w) (nat (w div 2)) (oversold_flags (stoch_oversold self) sc))
          (rolling_sum (nat w) (nat (w div 2)) (oversold_flags (rsi_oversold self) rc)))
       (set_column ''rsi_signals''
          (rolling_sum (nat w) (nat (w div 2)) (oversold_flags (rsi_oversold self) rc))
          (set_column ''stoch_signals''
             (rolling_sum (nat w) (nat (w div 2)) (oversold_flags (stoch_oversold self) sc)) df))"
    by (auto simp: calculate_ratio_series_def Let_def w_def split: if_splits)
  show ?thesis
    using c w by (simp add: t column_set_column nrows_set_column)
qed

lemma ratio_series_bar:
  assumes "calculate_ratio_series self df warg = Inr t" "wf_df df"
    "column df ''stoch_rsi'' = Some sc" "column df ''rsi'' = Some rc"
    "column t ''accumulation_ratio'' = Some ratios"
    "column t ''stoch_signals'' = Some ss" "column t ''rsi_signals'' = Some rs"
    "i < nrows df"
  defines "w \<equiv> nat (case warg of None \<Rightarrow> window self | Some v \<Rightarrow> v)"
  defines "a \<equiv> signal_count (stoch_oversold self) sc w i"
  defines "b \<equiv> signal_count (rsi_oversold self) rc w i"
  defines "m \<equiv> nat ((case warg of None \<Rightarrow> window self | Some v \<Rightarrow> v) div 2)"
  shows "(min w (Suc i) < m \<and> ss ! i = NaN \<and> rs ! i = NaN \<and> ratios ! i = NaN) \<or>
         (\<not> min w (Suc i) < m \<and> ss ! i = Fin (of_nat a) \<and> rs ! i = Fin (of_nat b)
          \<and> ratios ! i = Fin (spec_ratio a b))"
proof -
  define wi where "wi = (case warg of None \<Rightarrow> window self | Some v \<Rightarrow> v)"
  have ww: "w = nat wi" by (simp add: w_def wi_def)
  have mm: "m = nat (wi div 2)" by (simp add: m_def wi_def)
  have isc: "i < length sc" and irc: "i < length rc"
    using wf_column_length [OF assms(2)] assms(3,4,8) by auto
  from calculate_ratio_series_columns [OF assms(1)] assms(3-7)
  have ss: "ss = rolling_sum w (nat (wi div 2)) (oversold_flags (stoch_oversold self) sc)"
    and rs: "rs = rolling_sum w (nat (wi div 2)) (oversold_flags (rsi_oversold self) rc)"
    and ra: "ratios = map2 ratio_of_counts ss rs"
    by (auto simp: ww wi_def)
  have lsc: "length sc = nrows df" and lrc: "length rc = nrows df"
    using wf_column_length [OF assms(2)] assms(3,4) by auto
  have i1: "i < length (oversold_flags (stoch_oversold self) sc)"
    and i2: "i < length (oversold_flags (rsi_oversold self) rc)"
    using assms(8) lsc lrc by (simp_all add: oversold_flags_def)
  have iss: "i < length ss" and irs: "i < length rs"
    using i1 i2 by (simp_all add: ss rs length_rolling_sum)
  have r: "ratios ! i = ratio_of_counts (ss ! i) (rs ! i)"
    using iss irs by (simp add: ra)
  show ?thesis
  proof (cases "min w (Suc i) < nat (wi div 2)")
    case True
    then have "ss ! i = NaN" "rs ! i = NaN"
      using nth_rolling_sum [OF i1] nth_rolling_sum [OF i2] by (simp_all add: ss rs)
    then show ?thesis using r True by (simp add: ratio_of_counts_def mm)
  next
    case False
    then have "ss ! i = Fin (of_nat a)" "rs ! i = Fin (of_nat b)"
      using nth_rolling_sum [OF i1] nth_rolling_sum [OF i2]
      by (simp_all add: ss rs sum_trailing_flags [OF isc] sum_trailing_flags [OF irc] a_def b_def)
    then show ?thesis using r False by (simp add: ratio_of_counts_nat mm)
  qed
qed

lemma batch_loop_Cons:
  "batch_loop f ((s, d) # rest) results = batch_loop f rest (results(s \<mapsto> contain (f d s)))"
  by (simp add: contain_def split: sum.splits)

lemma batch_loop_other:
  "symb \<notin> fst ` set items \<Longrightarrow> batch_loop f items results symb = results symb"
  by (induction items arbitrary: results) (auto split: sum.splits)

lemma batch_loop_member:
  "distinct (map fst items) \<Longrightarrow> (symb, df) \<in> set items \<Longrightarrow>
   batch_loop f items results symb = Some (contain (f df symb))"
proof (induction items arbitrary: results)
  case Nil
  then show ?case by simp
next
  case (Cons item items)
  obtain s d where item: "item = (s, d)" by (cases item)
  show ?case
  proof (cases "(symb, df) = item")
    case True
    with Cons.prems(1) item have "symb \<notin> fst ` set items" by auto
    with True item show ?thesis
      by (simp add: batch_loop_other contain_def split: sum.splits)
  next
    case False
    with Cons item show ?thesis by auto
  qed
qed

lemma dom_batch_loop:
  "dom (batch_loop f items results) = dom results \<union> fst ` set items"
proof (induction items arbitrary: results)
  case Nil
  then show ?case by simp
next
  case (Cons item items)
  obtain s d where item: "item = (s, d)" by (cases item)
  show ?case
    unfolding item batch_loop_Cons Cons.IH by auto
qed

text \<open>The definitions a run on a concrete table unfolds.\<close>

lemmas run_defs = calculate_ratio_series_def missing_cols_def required_cols_def column_def
        oversold_flags_def rolling_sum_def trailing_def ratio_of_counts_examples
        set_column_def upt_rec Let_def default_analyzer_def

lemmas analyze_defs = analyze_body_def bind_err_def latest_value_def get_column_def tail_def
  df_empty_def classify_phase_def fle_def


text \<open>When the body of analyze raises on a well-formed table.\<close>

lemma latest_value_nonempty:
  "column t name = Some xs \<Longrightarrow> xs \<noteq> [] \<Longrightarrow> latest_value t name = Inr (last xs)"
  by (simp add: latest_value_def get_column_def bind_err_def)

lemma last_rolling_sum:
  assumes "xs \<noteq> []"
  shows "last (rolling_sum w m xs) =
     (if min w (length xs) < m then NaN
      else Fin (of_nat (sum_list (trailing w (length xs - 1) xs))))"
proof -
  have n: "rolling_sum w m xs \<noteq> []"
    using assms length_rolling_sum [of w m xs] by (metis length_0_conv)
  have i: "length xs - 1 < length xs" using assms by simp
  have "last (rolling_sum w m xs) = rolling_sum w m xs ! (length xs - 1)"
    using n by (simp add: last_conv_nth length_rolling_sum)
  also have "\<dots> = (if min w (Suc (length xs - 1)) < m then NaN
      else Fin (of_nat (sum_list (trailing w (length xs - 1) xs))))"
    by (rule nth_rolling_sum [OF i])
  finally show ?thesis using assms by simp
qed

lemma analyze_body_raises_iff:
  assumes "wf_df df" "\<not> df_empty df"
    "column df ''stoch_rsi'' \<noteq> None" "column df ''rsi'' \<noteq> None"
  shows "(\<exists>e. analyze_body self (Some df) = Inl e) \<longleftrightarrow>
         window self < 0 \<or> nrows df < nat (window self div 2)"
proof (cases "window self < 0")
  case True
  from assms(3,4) have m: "missing_cols df = {}" using missing_cols_iff [of df] by auto
  from assms(3,4) obtain sc rc where c: "column df ''stoch_rsi'' = Some sc" "column df ''rsi'' = Some rc"
    by auto
  from True m c have "calculate_ratio_series self df None = Inl (ValueError (Invalid_window (window self)))"
    by (simp add: calculate_ratio_series_def)
  with assms(2) m True show ?thesis
    by (simp add: analyze_body_def bind_err_def)
next
  case False
  define w where "w = window self"
  from assms(3,4) have m: "missing_cols df = {}" using missing_cols_iff [of df] by auto
  from assms(3,4) obtain sc rc where c: "column df ''stoch_rsi'' = Some sc" "column df ''rsi'' = Some rc"
    by auto
  from False m c obtain t where t: "calculate_ratio_series self df None = Inr t"
    by (simp add: calculate_ratio_series_def Let_def)
  define sf where "sf = oversold_flags (stoch_oversold self) sc"
  define rf where "rf = oversold_flags (rsi_oversold self) rc"
  define ss where "ss = rolling_sum (nat w) (nat (w div 2)) sf"
  define rs where "rs = rolling_sum (nat w) (nat (w div 2)) rf"
  from calculate_ratio_series_columns [OF t] c
  have cols: "column t ''stoch_signals'' = Some ss" "column t ''rsi_signals'' = Some rs"
    "column t ''accumulation_ratio'' = Some (map2 ratio_of_counts ss rs)"
    "column t ''rsi'' = Some rc"
    by (auto simp: ss_def rs_def sf_def rf_def w_def)
  from assms(2) have pos: "0 < nrows df" by (simp add: df_empty_def)
  have lsc: "length sc = nrows df" and lrc: "length rc = nrows df"
    using wf_column_length [OF assms(1)] c by auto
  have lsf: "length sf = nrows df" and lrf: "length rf = nrows df"
    by (simp_all add: sf_def rf_def oversold_flags_def lsc lrc)
  have lss: "length ss = nrows df" and lrs: "length rs = nrows df"
    by (simp_all add: ss_def rs_def length_rolling_sum lsf lrf)
  have ne: "ss \<noteq> []" "rs \<noteq> []" "rc \<noteq> []" "map2 ratio_of_counts ss rs \<noteq> []" "sf \<noteq> []" "rf \<noteq> []"
    using pos lss lrs lrc lsf lrf by auto
  have lv: "latest_value t ''accumulation_ratio'' = Inr (last (map2 ratio_of_counts ss rs))"
    "latest_value t ''rsi'' = Inr (last rc)"
    "latest_value t ''stoch_signals'' = Inr (last ss)"
    "latest_value t ''rsi_signals'' = Inr (last rs)"
    using cols ne by (simp_all add: latest_value_nonempty)
  have gc: "get_column t ''accumulation_ratio'' = Inr (map2 ratio_of_counts ss rs)"
    using cols by (simp add: get_column_def)
  have wle: "nat (w div 2) \<le> nat w" using False by (simp add: w_def nat_mono)
  have small: "min (nat w) (nrows df) < nat (w div 2) \<longleftrightarrow> nrows df < nat (w div 2)"
    using wle by auto
  have body: "analyze_body self (Some df) =
      bind_err (float_to_int (last ss)) (\<lambda>stoch_n.
      bind_err (float_to_int (last rs)) (\<lambda>rsig_n.
        Inr \<lparr> res_phase = pi_phase (classify_phase self (last (map2 ratio_of_counts ss rs)) (last rc)),
              res_ratio = last (map2 ratio_of_counts ss rs),
              res_points = pi_points (classify_phase self (last (map2 ratio_of_counts ss rs)) (last rc)),
              res_description = pi_description (classify_phase self (last (map2 ratio_of_counts ss rs)) (last rc)),
              res_stoch_signals = stoch_n, res_rsi_signals = rsig_n,
              res_rsi = last rc, res_history = tail 10 (map2 ratio_of_counts ss rs) \<rparr>))"
    using assms(2) m by (simp add: analyze_body_def t lv gc bind_err_def Let_def)
  show ?thesis
  proof (cases "nrows df < nat (w div 2)")
    case True
    then have "last ss = NaN"
      using last_rolling_sum [OF ne(5), of "nat w" "nat (w div 2)"] small
      by (simp add: ss_def lsf)
    then show ?thesis using True False by (simp add: body bind_err_def w_def)
  next
    case nsmall: False
    then have "\<exists>a. last ss = Fin a" "\<exists>b. last rs = Fin b"
      using last_rolling_sum [OF ne(5), of "nat w" "nat (w div 2)"]
        last_rolling_sum [OF ne(6), of "nat w" "nat (w div 2)"] small
      by (simp_all add: ss_def rs_def lsf lrf)
    then show ?thesis using nsmall False by (auto simp: body bind_err_def w_def)
  qed
qed

section \<open>Lemmas about the worker pool and the ranking\<close>

lemma successful_append:
  "successful worker (xs @ ys) = successful worker xs @ successful worker ys"
  by (induction xs) (auto split: option.splits)

lemma successful_split_nth:
  assumes "i < length xs"
  shows "mset (successful worker xs) =
         mset (successful worker [xs ! i]) + mset (successful worker (take i xs @ drop (Suc i) xs))"
proof -
  have "xs = take i xs @ [xs ! i] @ drop (Suc i) xs"
    using assms by (simp add: id_take_nth_drop)
  then have "successful worker xs =
      successful worker (take i xs) @ successful worker [xs ! i] @ successful worker (drop (Suc i) xs)"
    by (metis successful_append)
  then show ?thesis by (simp add: successful_append)
qed

lemma pool_run_collects:
  "pool_run worker max_workers queue running collected result \<Longrightarrow>
   mset result = mset collected + mset (successful worker (running @ queue))"
proof (induction rule: pool_run.induct)
  case (finished collected)
  then show ?case by simp
next
  case (dispatch running queue name collected result)
  then show ?case by simp
next
  case (complete i running queue collected result)
  from complete.IH successful_split_nth [OF complete.hyps(1), of worker]
  show ?case by (simp add: successful_append)
qed

lemma pool_run_sequential:
  "0 < max_workers \<Longrightarrow>
   pool_run worker max_workers queue [] collected (collected @ successful worker queue)"
proof (induction queue arbitrary: collected)
  case Nil
  show ?case by (simp add: pool_run.finished)
next
  case (Cons name queue)
  have split: "successful worker (name # queue) = successful worker [name] @ successful worker queue"
    using successful_append [of worker "[name]" queue] by simp
  have "pool_run worker max_workers queue [] (collected @ successful worker [name])
      ((collected @ successful worker [name]) @ successful worker queue)"
    by (rule Cons.IH [OF Cons.prems])
  then have "pool_run worker max_workers queue [] (collected @ successful worker [name])
      (collected @ successful worker (name # queue))"
    by (simp only: split append_assoc)
  then have "pool_run worker max_workers queue (take 0 [name] @ drop (Suc 0) [name])
      (collected @ successful worker [[name] ! 0]) (collected @ successful worker (name # queue))"
    by (simp del: successful.simps)
  then have "pool_run worker max_workers queue [name] collected
      (collected @ successful worker (name # queue))"
    by (rule pool_run.complete [rotated]) simp
  then have "pool_run worker max_workers queue ([] @ [name]) collected
      (collected @ successful worker (name # queue))"
    by simp
  with Cons.prems show ?case
    by (intro pool_run.dispatch) simp_all
qed

lemma successful_omits:
  "contained (worker b) = None \<Longrightarrow> successful worker xs = successful worker (removeAll b xs)"
  by (induction xs) (auto split: option.splits)

lemma rank_descending: "sorted_wrt (\<lambda>a b. total_points b \<le> total_points a) (rank scores)"
proof -
  have "sorted (map (\<lambda>s. - total_points s) (rank scores))"
    unfolding rank_def by (rule sorted_sort_key)
  then show ?thesis by (simp add: sorted_map)
qed

lemma set_rank: "set (rank scores) = set scores"
  by (simp add: rank_def)

lemma descending_distinct_strict:
  "sorted_wrt (\<lambda>a b. total_points b \<le> total_points a) xs \<Longrightarrow> distinct (map total_points xs) \<Longrightarrow>
   sorted_wrt (\<lambda>a b. total_points b < total_points a) xs"
proof (induction xs)
  case Nil
  then show ?case by simp
next
  case (Cons a xs)
  have "total_points b < total_points a" if "b \<in> set xs" for b
  proof -
    from Cons.prems(1) that have "total_points b \<le> total_points a" by simp
    moreover from Cons.prems(2) have "total_points a \<notin> total_points ` set xs" by simp
    with that have "total_points b \<noteq> total_points a" by (metis imageI)
    ultimately show ?thesis by simp
  qed
  with Cons show ?case by simp
qed

section \<open>The claims\<close>

text \<open>
  C10: calculate_ratio_series, unlike analyze, propagates failure: on every table that lacks
  the stoch_rsi or the rsi column it raises the ValueError that names the missing columns,
  where analyze returns the default result.
\<close>

theorem calculate_ratio_series_propagates_missing_columns:
  assumes "column df ''stoch_rsi'' = None \<or> column df ''rsi'' = None"
  shows "calculate_ratio_series self df warg
           = Inl (ValueError (Missing_required_columns (missing_cols df)))
       \<and> missing_cols df \<noteq> {}
       \<and> missing_cols df = {c. (c = ''stoch_rsi'' \<or> c = ''rsi'') \<and> column df c = None}
       \<and> analyze self (Some df) = Inr empty_result"
proof -
  from assms have m: "missing_cols df \<noteq> {}" by (simp add: missing_cols_iff)
  have s: "missing_cols df = {c. (c = ''stoch_rsi'' \<or> c = ''rsi'') \<and> column df c = None}"
    by (auto simp: missing_cols_def required_cols_def)
  from m have "calculate_ratio_series self df warg
           = Inl (ValueError (Missing_required_columns (missing_cols df)))"
    by (simp add: calculate_ratio_series_def Let_def)
  moreover from m have "analyze self (Some df) = Inr empty_result"
    by (simp add: analyze_def analyze_body_def)
  ultimately show ?thesis using m s by blast
qed

theorem calculate_ratio_series_propagates_missing_columns_witness:
  "calculate_ratio_series default_analyzer df_close_only (Some 2)
     = Inl (ValueError (Missing_required_columns {''stoch_rsi'', ''rsi''}))
   \<and> analyze default_analyzer (Some df_close_only) = Inr empty_result"
proof -
  have c: "column df_close_only ''stoch_rsi'' = None \<or> column df_close_only ''rsi'' = None"
    by (simp add: column_def df_close_only_def)
  have "missing_cols df_close_only = {''stoch_rsi'', ''rsi''}"
    by (simp add: missing_cols_def required_cols_def column_def df_close_only_def)
  with calculate_ratio_series_propagates_missing_columns [OF c, of default_analyzer "Some 2"]
  show ?thesis by simp
qed

text \<open>
  C1, as stated: a bar's ratio is 0 if and only if both of its counts are 0. This fails: a bar
  with no stoch signal and some rsi signals has ratio 0.
\<close>

theorem ratio_zero_iff_both_counts_zero_counterexample:
  "\<not> (\<forall>self df warg t ratios ss rs i.
        calculate_ratio_series self df warg = Inr t \<and> wf_df df \<and>
        column t ''accumulation_ratio'' = Some ratios \<and>
        column t ''stoch_signals'' = Some ss \<and> column t ''rsi_signals'' = Some rs \<and>
        i < nrows df \<longrightarrow>
        (ratios ! i = Fin 0 \<longleftrightarrow> ss ! i = Fin 0 \<and> rs ! i = Fin 0))"
proof
  assume h: "\<forall>self df warg t ratios ss rs i.
        calculate_ratio_series self df warg = Inr t \<and> wf_df df \<and>
        column t ''accumulation_ratio'' = Some ratios \<and>
        column t ''stoch_signals'' = Some ss \<and> column t ''rsi_signals'' = Some rs \<and>
        i < nrows df \<longrightarrow>
        (ratios ! i = Fin 0 \<longleftrightarrow> ss ! i = Fin 0 \<and> rs ! i = Fin 0)"
  define t where "t = \<lparr>nrows = 2,
        cols = [(''stoch_rsi'', [Fin 50, Fin 50]), (''rsi'', [Fin 20, Fin 20]),
           (''stoch_signals'', [Fin 0, Fin 0]), (''rsi_signals'', [Fin 1, Fin 2]),
           (''accumulation_ratio'', [Fin 0, Fin 0])]\<rparr>"
  have run: "calculate_ratio_series default_analyzer df_zero_stoch (Some 2) = Inr t"
    by (simp add: run_defs df_zero_stoch_def t_def)
  have wf: "wf_df df_zero_stoch" by (simp add: wf_df_def df_zero_stoch_def)
  have cs: "column t ''accumulation_ratio'' = Some [Fin 0, Fin 0]"
    "column t ''stoch_signals'' = Some [Fin 0, Fin 0]"
    "column t ''rsi_signals'' = Some [Fin 1, Fin 2]"
    by (simp_all add: column_def t_def)
  have "(1::nat) < nrows df_zero_stoch" by (simp add: df_zero_stoch_def)
  with h run wf cs
  have "([Fin 0, Fin 0] ! 1 = Fin 0) \<longleftrightarrow>
        ([Fin 0, Fin 0] ! 1 = Fin 0 \<and> [Fin 1, Fin 2 :: pyfloat] ! 1 = Fin 0)"
    by blast
  then show False by simp
qed

text \<open>
  C1, amended: in the table calculate_ratio_series returns, a bar's ratio is exactly 0 if and
  only if its stoch_signals count is 0; in particular it is 0 when both counts are 0.
\<close>

theorem ratio_zero_iff_no_stoch_signals:
  assumes "calculate_ratio_series self df warg = Inr t" "wf_df df"
    "column t ''accumulation_ratio'' = Some ratios"
    "column t ''stoch_signals'' = Some ss" "column t ''rsi_signals'' = Some rs"
    "i < nrows df"
  shows "(ratios ! i = Fin 0 \<longleftrightarrow> ss ! i = Fin 0) \<and>
         (ss ! i = Fin 0 \<and> rs ! i = Fin 0 \<longrightarrow> ratios ! i = Fin 0)"
proof -
  from calculate_ratio_series_columns [OF assms(1)]
  obtain sc rc where c: "column df ''stoch_rsi'' = Some sc" "column df ''rsi'' = Some rc"
    by blast
  from ratio_series_bar [OF assms(1,2) c assms(3-6)]
  show ?thesis by (auto simp: spec_ratio_zero_iff)
qed

theorem ratio_zero_iff_no_stoch_signals_witness:
  "calculate_ratio_series default_analyzer df_zero_stoch (Some 2) =
     Inr \<lparr>nrows = 2,
        cols = [(''stoch_rsi'', [Fin 50, Fin 50]), (''rsi'', [Fin 20, Fin 20]),
           (''stoch_signals'', [Fin 0, Fin 0]), (''rsi_signals'', [Fin 1, Fin 2]),
           (''accumulation_ratio'', [Fin 0, Fin 0])]\<rparr>
   \<and> wf_df df_zero_stoch \<and> (1::nat) < nrows df_zero_stoch
   \<and> [Fin 0, Fin 0 :: pyfloat] ! 1 = Fin 0"
proof -
  define t where "t = \<lparr>nrows = 2,
        cols = [(''stoch_rsi'', [Fin 50, Fin 50]), (''rsi'', [Fin 20, Fin 20]),
           (''stoch_signals'', [Fin 0, Fin 0]), (''rsi_signals'', [Fin 1, Fin 2]),
           (''accumulation_ratio'', [Fin 0, Fin 0])]\<rparr>"
  have run: "calculate_ratio_series default_analyzer df_zero_stoch (Some 2) = Inr t"
    by (simp add: run_defs df_zero_stoch_def t_def)
  have wf: "wf_df df_zero_stoch" by (simp add: wf_df_def df_zero_stoch_def)
  have cs: "column t ''accumulation_ratio'' = Some [Fin 0, Fin 0]"
    "column t ''stoch_signals'' = Some [Fin 0, Fin 0]"
    "column t ''rsi_signals'' = Some [Fin 1, Fin 2]"
    by (simp_all add: column_def t_def)
  have i: "(1::nat) < nrows df_zero_stoch" by (simp add: df_zero_stoch_def)
  from ratio_zero_iff_no_stoch_signals [OF run wf cs i] run wf i
  show ?thesis by (simp add: t_def)
qed

text \<open>
  C4: for every bar of the table calculate_ratio_series returns whose rolling counts are
  defined (at least window // 2 bars of the window are there), the two counts are the
  numbers of bars j with i - window < j <= i whose stoch_rsi is below stoch_oversold and
  whose rsi is below rsi_oversold, and the ratio is the fast count divided by
  max(slow count, 0.1), forced to 0 when both counts are 0, then clipped to [0,20]; so the
  ratio lies between 0 and 20.
\<close>

theorem ratio_formula_and_bounds:
  assumes "calculate_ratio_series self df warg = Inr t" "wf_df df"
    "column df ''stoch_rsi'' = Some sc" "column df ''rsi'' = Some rc"
    "column t ''accumulation_ratio'' = Some ratios"
    "column t ''stoch_signals'' = Some ss" "column t ''rsi_signals'' = Some rs"
    "i < nrows df"
    "w = nat (case warg of None \<Rightarrow> window self | Some v \<Rightarrow> v)"
    "min_periods = nat ((case warg of None \<Rightarrow> window self | Some v \<Rightarrow> v) div 2)"
    "fast_count = card {j. j \<le> i \<and> i < j + w \<and> flt (sc ! j) (Fin (stoch_oversold self))}"
    "slow_count = card {j. j \<le> i \<and> i < j + w \<and> flt (rc ! j) (Fin (rsi_oversold self))}"
  shows "(ss ! i = NaN \<longleftrightarrow> min w (Suc i) < min_periods)
       \<and> (rs ! i = NaN \<longleftrightarrow> min w (Suc i) < min_periods)
       \<and> (ss ! i \<noteq> NaN \<and> rs ! i \<noteq> NaN \<longrightarrow>
            ss ! i = Fin (of_nat fast_count) \<and> rs ! i = Fin (of_nat slow_count)
          \<and> ratios ! i =
              Fin (min (max (if fast_count = 0 \<and> slow_count = 0 then 0
                             else float64 (of_nat fast_count
                                           / max (of_nat slow_count) (float64 (1 / 10)))) 0) 20)
          \<and> (\<exists>r. ratios ! i = Fin r \<and> 0 \<le> r \<and> r \<le> 20))"
proof -
  have f: "fast_count = signal_count (stoch_oversold self) sc w i"
    and s: "slow_count = signal_count (rsi_oversold self) rc w i"
    by (simp_all add: assms(11,12) signal_count_card)
  have sr: "spec_ratio fast_count slow_count =
      min (max (if fast_count = 0 \<and> slow_count = 0 then 0
                else float64 (of_nat fast_count / max (of_nat slow_count) (float64 (1 / 10)))) 0) 20"
    by (simp only: spec_ratio_def)
  from ratio_series_bar [OF assms(1-8)]
  have "(min w (Suc i) < min_periods \<and> ss ! i = NaN \<and> rs ! i = NaN \<and> ratios ! i = NaN) \<or>
      (\<not> min w (Suc i) < min_periods \<and> ss ! i = Fin (of_nat fast_count)
       \<and> rs ! i = Fin (of_nat slow_count)
       \<and> ratios ! i = Fin (spec_ratio fast_count slow_count))"
    by (simp only: assms(9,10) f s)
  then show ?thesis
    using spec_ratio_bounds [of fast_count slow_count] unfolding sr by auto
qed

theorem ratio_formula_and_bounds_witness:
  "calculate_ratio_series default_analyzer df_four_bars (Some 3) =
     Inr \<lparr>nrows = 4,
        cols = [(''stoch_rsi'', [Fin 10, Fin 10, Fin 50, Fin 50]),
           (''rsi'', [Fin 20, Fin 20, Fin 20, Fin 20]),
           (''stoch_signals'', [Fin 1, Fin 2, Fin 2, Fin 1]),
           (''rsi_signals'', [Fin 1, Fin 2, Fin 3, Fin 3]),
           (''accumulation_ratio'',
              [Fin 1, Fin 1, Fin (6004799503160661 / 9007199254740992),
               Fin (6004799503160661 / 18014398509481984)])]\<rparr>
   \<and> wf_df df_four_bars
   \<and> card {j. j \<le> 3 \<and> 3 < j + 3
            \<and> flt ([Fin 10, Fin 10, Fin 50, Fin 50] ! j) (Fin (stoch_oversold default_analyzer))} = 1
   \<and> card {j. j \<le> 3 \<and> 3 < j + 3
            \<and> flt ([Fin 20, Fin 20, Fin 20, Fin 20] ! j) (Fin (rsi_oversold default_analyzer))} = 3
   \<and> float64 (1 / 3) = 6004799503160661 / 18014398509481984
   \<and> [Fin 1, Fin 2, Fin 2, Fin 1 :: pyfloat] ! 3 = Fin 1
   \<and> [Fin 1, Fin 2, Fin 3, Fin 3 :: pyfloat] ! 3 = Fin 3"
proof -
  define t where "t = \<lparr>nrows = 4,
        cols = [(''stoch_rsi'', [Fin 10, Fin 10, Fin 50, Fin 50]),
           (''rsi'', [Fin 20, Fin 20, Fin 20, Fin 20]),
           (''stoch_signals'', [Fin 1, Fin 2, Fin 2, Fin 1]),
           (''rsi_signals'', [Fin 1, Fin 2, Fin 3, Fin 3]),
           (''accumulation_ratio'',
              [Fin 1, Fin 1, Fin (6004799503160661 / 9007199254740992),
               Fin (6004799503160661 / 18014398509481984)])]\<rparr>"
  define fast where "fast = card {j. j \<le> 3 \<and> 3 < j + 3
      \<and> flt ([Fin 10, Fin 10, Fin 50, Fin 50] ! j) (Fin (stoch_oversold default_analyzer))}"
  define slow where "slow = card {j. j \<le> 3 \<and> 3 < j + 3
      \<and> flt ([Fin 20, Fin 20, Fin 20, Fin 20] ! j) (Fin (rsi_oversold default_analyzer))}"
  have run: "calculate_ratio_series default_analyzer df_four_bars (Some 3) = Inr t"
    by (simp add: run_defs df_four_bars_def t_def)
  have wf: "wf_df df_four_bars" by (simp add: wf_df_def df_four_bars_def)
  have c: "column df_four_bars ''stoch_rsi'' = Some [Fin 10, Fin 10, Fin 50, Fin 50]"
    "column df_four_bars ''rsi'' = Some [Fin 20, Fin 20, Fin 20, Fin 20]"
    by (simp_all add: column_def df_four_bars_def)
  have cs: "column t ''accumulation_ratio'' =
      Some [Fin 1, Fin 1, Fin (6004799503160661 / 9007199254740992),
            Fin (6004799503160661 / 18014398509481984)]"
    "column t ''stoch_signals'' = Some [Fin 1, Fin 2, Fin 2, Fin 1]"
    "column t ''rsi_signals'' = Some [Fin 1, Fin 2, Fin 3, Fin 3]"
    by (simp_all add: column_def t_def)
  have i: "(3::nat) < nrows df_four_bars" by (simp add: df_four_bars_def)
  have w: "(3::nat) = nat (case Some 3 of None \<Rightarrow> window default_analyzer | Some v \<Rightarrow> v)"
    by simp
  have m: "(1::nat) = nat ((case Some 3 of None \<Rightarrow> window default_analyzer | Some v \<Rightarrow> v) div 2)"
    by simp
  note th = ratio_formula_and_bounds [OF run wf c cs i w m fast_def slow_def]
  have d: "[Fin 1, Fin 2, Fin 2, Fin 1 :: pyfloat] ! 3 \<noteq> NaN
      \<and> [Fin 1, Fin 2, Fin 3, Fin 3 :: pyfloat] ! 3 \<noteq> NaN"
    by simp
  from th d have "[Fin 1, Fin 2, Fin 2, Fin 1 :: pyfloat] ! 3 = Fin (of_nat fast)"
    and "[Fin 1, Fin 2, Fin 3, Fin 3 :: pyfloat] ! 3 = Fin (of_nat slow)"
    by blast+
  then have fs: "fast = 1" "slow = 3" by simp_all
  have r: "float64 (1 / 3) = 6004799503160661 / 18014398509481984" by code_simp
  from run wf fs r show ?thesis by (simp add: t_def fast_def slow_def)
qed

text \<open>
  C5: classify_phase evaluates the tiers in the order early, mid, late, breakout and returns
  the first tier whose ratio range and RSI bound both hold, with that tier's points and
  description (18, 14, 10 and 6 points in the documented configuration); when no tier
  matches it returns phase none with 0 points.
\<close>

theorem classify_phase_first_match:
  "classify_phase self ratio_v rsi_v =
     (case first_matching_tier self ratio_v rsi_v of
        Some tier \<Rightarrow> \<lparr>pi_phase = tier, pi_points = tier_points self tier,
                       pi_description = tier_description tier\<rparr>
      | None \<Rightarrow> \<lparr>pi_phase = NoPhase, pi_points = 0,
                  pi_description = ''No Accumulation Detected''\<rparr>)
   \<and> tier_order = [Early, Mid, Late, Breakout]
   \<and> map (tier_points default_analyzer) tier_order = [18, 14, 10, 6]"
  by (simp add: classify_phase_def first_matching_tier_def tier_order_def default_analyzer_def)


theorem classify_phase_first_match_witness:
  "classify_phase default_analyzer (Fin 4) (Fin 48) =
     \<lparr>pi_phase = Mid, pi_points = 14, pi_description = ''Mid Accumulation - High Probability''\<rparr>
   \<and> first_matching_tier default_analyzer (Fin 4) (Fin 48) = Some Mid
   \<and> classify_phase default_analyzer (Fin (1 / 2)) (Fin 40) =
     \<lparr>pi_phase = NoPhase, pi_points = 0, pi_description = ''No Accumulation Detected''\<rparr>"
proof -
  have m: "first_matching_tier default_analyzer (Fin 4) (Fin 48) = Some Mid"
    by (simp add: first_matching_tier_def tier_order_def default_analyzer_def fle_def
        float64_four_fifths)
  have n: "first_matching_tier default_analyzer (Fin (1 / 2)) (Fin 40) = None"
    by (simp add: first_matching_tier_def tier_order_def default_analyzer_def fle_def
        float64_four_fifths)
  from classify_phase_first_match [of default_analyzer "Fin 4" "Fin 48"]
    classify_phase_first_match [of default_analyzer "Fin (1 / 2)" "Fin 40"] m n
  show ?thesis by (simp add: default_analyzer_def)
qed

text \<open>
  C7: analyze never raises. On None, on an empty table, on a table that lacks stoch_rsi or
  rsi, and whenever a step of its computation raises, it returns the default result (phase
  none, 0 points, rsi 50); otherwise it returns the classification of the latest bar of the
  ratio series. On a well-formed table a step raises exactly when the window is negative
  or the table has fewer than window // 2 rows, the latest counts then being NaN.
\<close>

theorem analyze_never_raises:
  "(\<exists>r. analyze self df_arg = Inr r)
   \<and> (df_arg = None \<longrightarrow> analyze self df_arg = Inr empty_result)
   \<and> (\<forall>df. df_arg = Some df \<and>
         (df_empty df \<or> column df ''stoch_rsi'' = None \<or> column df ''rsi'' = None)
         \<longrightarrow> analyze self df_arg = Inr empty_result)
   \<and> (\<forall>e. analyze_body self df_arg = Inl e \<longrightarrow> analyze self df_arg = Inr empty_result)
   \<and> res_phase empty_result = NoPhase \<and> res_points empty_result = 0
   \<and> res_rsi empty_result = Fin 50
   \<and> (\<forall>df. df_arg = Some df \<and> \<not> df_empty df \<and> column df ''stoch_rsi'' \<noteq> None
          \<and> column df ''rsi'' \<noteq> None \<and> (\<forall>e. analyze_body self df_arg \<noteq> Inl e)
        \<longrightarrow> (\<exists>t ratio_v rsi_v r.
               calculate_ratio_series self df None = Inr t
             \<and> latest_value t ''accumulation_ratio'' = Inr ratio_v
             \<and> latest_value t ''rsi'' = Inr rsi_v
             \<and> analyze self df_arg = Inr r
             \<and> res_phase r = pi_phase (classify_phase self ratio_v rsi_v)
             \<and> res_points r = pi_points (classify_phase self ratio_v rsi_v)
             \<and> res_description r = pi_description (classify_phase self ratio_v rsi_v)
             \<and> res_ratio r = ratio_v \<and> res_rsi r = rsi_v))
   \<and> (\<forall>df. df_arg = Some df \<and> wf_df df \<and> \<not> df_empty df
          \<and> column df ''stoch_rsi'' \<noteq> None \<and> column df ''rsi'' \<noteq> None
        \<longrightarrow> ((\<exists>e. analyze_body self df_arg = Inl e) \<longleftrightarrow>
              window self < 0 \<or> nrows df < nat (window self div 2)))"
proof -
  have total: "\<exists>r. analyze self df_arg = Inr r"
    by (simp add: analyze_def split: sum.splits)
  have none: "df_arg = None \<longrightarrow> analyze self df_arg = Inr empty_result"
    by (simp add: analyze_def analyze_body_def)
  have invalid: "\<forall>df. df_arg = Some df \<and>
         (df_empty df \<or> column df ''stoch_rsi'' = None \<or> column df ''rsi'' = None)
         \<longrightarrow> analyze self df_arg = Inr empty_result"
    using missing_cols_iff by (auto simp: analyze_def analyze_body_def)
  have raised: "\<forall>e. analyze_body self df_arg = Inl e \<longrightarrow> analyze self df_arg = Inr empty_result"
    by (simp add: analyze_def)
  have dflt: "res_phase empty_result = NoPhase \<and> res_points empty_result = 0
     \<and> res_rsi empty_result = Fin 50"
    by (simp add: empty_result_def)
  have ok: "\<exists>t ratio_v rsi_v r.
               calculate_ratio_series self df None = Inr t
             \<and> latest_value t ''accumulation_ratio'' = Inr ratio_v
             \<and> latest_value t ''rsi'' = Inr rsi_v
             \<and> analyze self df_arg = Inr r
             \<and> res_phase r = pi_phase (classify_phase self ratio_v rsi_v)
             \<and> res_points r = pi_points (classify_phase self ratio_v rsi_v)
             \<and> res_description r = pi_description (classify_phase self ratio_v rsi_v)
             \<and> res_ratio r = ratio_v \<and> res_rsi r = rsi_v"
    if h: "df_arg = Some df" "\<not> df_empty df" "column df ''stoch_rsi'' \<noteq> None"
      "column df ''rsi'' \<noteq> None" "\<forall>e. analyze_body self df_arg \<noteq> Inl e" for df
  proof -
    from h(3,4) have m: "missing_cols df = {}" using missing_cols_iff [of df] by auto
    from h(5) obtain r where r: "analyze_body self df_arg = Inr r"
      by (cases "analyze_body self df_arg") auto
    then have a: "analyze self df_arg = Inr r" by (simp add: analyze_def)
    from r h(1,2) m show ?thesis
      unfolding a
      by (auto simp: analyze_body_def bind_err_def Let_def split: sum.splits)
  qed
  have ok': "\<forall>df. df_arg = Some df \<and> \<not> df_empty df \<and> column df ''stoch_rsi'' \<noteq> None
          \<and> column df ''rsi'' \<noteq> None \<and> (\<forall>e. analyze_body self df_arg \<noteq> Inl e)
        \<longrightarrow> (\<exists>t ratio_v rsi_v r.
               calculate_ratio_series self df None = Inr t
             \<and> latest_value t ''accumulation_ratio'' = Inr ratio_v
             \<and> latest_value t ''rsi'' = Inr rsi_v
             \<and> analyze self df_arg = Inr r
             \<and> res_phase r = pi_phase (classify_phase self ratio_v rsi_v)
             \<and> res_points r = pi_points (classify_phase self ratio_v rsi_v)
             \<and> res_description r = pi_description (classify_phase self ratio_v rsi_v)
             \<and> res_ratio r = ratio_v \<and> res_rsi r = rsi_v)"
    using ok by blast
  have raises_when: "\<forall>df. df_arg = Some df \<and> wf_df df \<and> \<not> df_empty df
          \<and> column df ''stoch_rsi'' \<noteq> None \<and> column df ''rsi'' \<noteq> None
        \<longrightarrow> ((\<exists>e. analyze_body self df_arg = Inl e) \<longleftrightarrow>
              window self < 0 \<or> nrows df < nat (window self div 2))"
    using analyze_body_raises_iff by blast
  show ?thesis by (intro conjI total none invalid raised dflt [THEN conjunct1]
      dflt [THEN conjunct2, THEN conjunct1] dflt [THEN conjunct2, THEN conjunct2] ok' raises_when)
qed

theorem analyze_never_raises_witness:
  "analyze small_window_analyzer (Some df_accumulating) =
     Inr \<lparr>res_phase = Early, res_ratio = Fin 20, res_points = 18,
          res_description = ''Early Accumulation - Best Entry'',
          res_stoch_signals = 2, res_rsi_signals = 0, res_rsi = Fin 40,
          res_history = [Fin 10, Fin 20]\<rparr>
   \<and> classify_phase small_window_analyzer (Fin 20) (Fin 40) =
     \<lparr>pi_phase = Early, pi_points = 18, pi_description = ''Early Accumulation - Best Entry''\<rparr>
   \<and> analyze_body default_analyzer (Some df_zero_stoch) = Inl (ValueError Cannot_convert_to_integer)
   \<and> analyze default_analyzer (Some df_zero_stoch) = Inr empty_result
   \<and> analyze default_analyzer (Some df_close_only) = Inr empty_result
   \<and> analyze default_analyzer (Some df_no_rows) = Inr empty_result
   \<and> analyze default_analyzer None = Inr empty_result"
proof -
  define r where "r = \<lparr>res_phase = Early, res_ratio = Fin 20, res_points = 18,
          res_description = ''Early Accumulation - Best Entry'',
          res_stoch_signals = 2, res_rsi_signals = 0, res_rsi = Fin 40,
          res_history = [Fin 10, Fin 20]\<rparr>"
  have body: "analyze_body small_window_analyzer (Some df_accumulating) = Inr r"
    by (simp add: analyze_defs run_defs small_window_analyzer_def df_accumulating_def r_def)
  have ok: "\<forall>e. analyze_body small_window_analyzer (Some df_accumulating) \<noteq> Inl e"
    by (simp add: body)
  have pre: "\<not> df_empty df_accumulating" "column df_accumulating ''stoch_rsi'' \<noteq> None"
    "column df_accumulating ''rsi'' \<noteq> None"
    by (simp_all add: df_empty_def column_def df_accumulating_def)
  have cls: "classify_phase small_window_analyzer (Fin 20) (Fin 40) =
     \<lparr>pi_phase = Early, pi_points = 18, pi_description = ''Early Accumulation - Best Entry''\<rparr>"
    by (simp add: classify_phase_def fle_def small_window_analyzer_def default_analyzer_def)
  have raised: "analyze_body default_analyzer (Some df_zero_stoch)
      = Inl (ValueError Cannot_convert_to_integer)"
    by (simp add: analyze_defs run_defs df_zero_stoch_def)
  have e1: "column df_close_only ''stoch_rsi'' = None" by (simp add: column_def df_close_only_def)
  have e2: "df_empty df_no_rows" by (simp add: df_empty_def df_no_rows_def)
  note a = analyze_never_raises [of small_window_analyzer "Some df_accumulating"]
  note b = analyze_never_raises [of default_analyzer "Some df_zero_stoch"]
  note c = analyze_never_raises [of default_analyzer "Some df_close_only"]
  note d = analyze_never_raises [of default_analyzer "Some df_no_rows"]
  note n = analyze_never_raises [of default_analyzer None]
  have 1: "analyze small_window_analyzer (Some df_accumulating) = Inr r"
    using a body by (simp add: analyze_def)
  have 2: "analyze default_analyzer (Some df_zero_stoch) = Inr empty_result"
    using b raised by blast
  have 3: "analyze default_analyzer (Some df_close_only) = Inr empty_result"
    using c e1 by blast
  have 4: "analyze default_analyzer (Some df_no_rows) = Inr empty_result"
    using d e2 by blast
  have 5: "analyze default_analyzer None = Inr empty_result"
    using n by blast
  from 1 2 3 4 5 cls raised show ?thesis by (simp add: r_def)
qed

text \<open>
  C8: batch_analyze returns a result for every symbol of the map. A symbol whose analysis
  raises gets the default result, and every symbol's result is the one its own table
  gives: it equals analyze applied to that table alone.
\<close>

theorem batch_analyze_isolates_symbols:
  assumes "distinct (map fst data_dict)" "(symb, df) \<in> set data_dict"
  shows "dom (batch_analyze_with f data_dict) = fst ` set data_dict
       \<and> dom (batch_analyze self data_dict) = fst ` set data_dict
       \<and> batch_analyze_with f data_dict symb
           = Some (case f df symb of Inr r \<Rightarrow> r | Inl e \<Rightarrow> empty_result)
       \<and> batch_analyze_with f data_dict symb = batch_analyze_with f [(symb, df)] symb
       \<and> Inr (the (batch_analyze self data_dict symb)) = analyze self df
       \<and> batch_analyze self data_dict symb = batch_analyze self [(symb, df)] symb"
proof -
  have single: "batch_analyze_with g [(symb, df)] symb = Some (contain (g df symb))" for g
    by (simp add: batch_analyze_with_def contain_def split: sum.splits)
  have member: "batch_analyze_with g data_dict symb = Some (contain (g df symb))" for g
    unfolding batch_analyze_with_def using assms by (rule batch_loop_member)
  obtain r where r: "analyze self df = Inr r"
    by (cases "analyze_body self df") (auto simp: analyze_def)
  have "batch_analyze self data_dict symb = Some r"
    using member [of "\<lambda>d s. analyze self d"] r by (simp add: batch_analyze_def contain_def)
  moreover have "batch_analyze self [(symb, df)] symb = Some r"
    using single [of "\<lambda>d s. analyze self d"] r by (simp add: batch_analyze_def contain_def)
  ultimately show ?thesis
    using member [of f] single [of f] r
    by (simp add: batch_analyze_def batch_analyze_with_def dom_batch_loop contain_def)
qed


theorem batch_analyze_isolates_symbols_witness:
  "distinct (map fst example_dict) \<and> (''GOOD'', Some df_accumulating) \<in> set example_dict
   \<and> failing_on_bad (Some df_no_rows) ''BAD'' = Inl IndexError
   \<and> batch_analyze_with failing_on_bad example_dict ''BAD'' = Some empty_result
   \<and> batch_analyze_with failing_on_bad example_dict ''GOOD''
       = batch_analyze_with failing_on_bad [(''GOOD'', Some df_accumulating)] ''GOOD''
   \<and> Inr (the (batch_analyze small_window_analyzer example_dict ''GOOD''))
       = analyze small_window_analyzer (Some df_accumulating)
   \<and> dom (batch_analyze small_window_analyzer example_dict) = {''GOOD'', ''BAD''}"
proof -
  have d: "distinct (map fst example_dict)" by (simp add: example_dict_def)
  have g: "(''GOOD'', Some df_accumulating) \<in> set example_dict" by (simp add: example_dict_def)
  have b: "(''BAD'', Some df_no_rows) \<in> set example_dict" by (simp add: example_dict_def)
  have f: "failing_on_bad (Some df_no_rows) ''BAD'' = Inl IndexError"
    by (simp add: failing_on_bad_def)
  have s: "fst ` set example_dict = {''GOOD'', ''BAD''}" by (simp add: example_dict_def)
  note good = batch_analyze_isolates_symbols [OF d g, of failing_on_bad small_window_analyzer]
  note bad = batch_analyze_isolates_symbols [OF d b, of failing_on_bad small_window_analyzer]
  from bad have 1: "batch_analyze_with failing_on_bad example_dict ''BAD''
      = Some (case failing_on_bad (Some df_no_rows) ''BAD'' of Inr r \<Rightarrow> r | Inl e \<Rightarrow> empty_result)"
    by blast
  from good have 2: "batch_analyze_with failing_on_bad example_dict ''GOOD''
       = batch_analyze_with failing_on_bad [(''GOOD'', Some df_accumulating)] ''GOOD''"
    by blast
  from good have 3: "Inr (the (batch_analyze small_window_analyzer example_dict ''GOOD''))
       = analyze small_window_analyzer (Some df_accumulating)"
    by blast
  from good have 4: "dom (batch_analyze small_window_analyzer example_dict) = fst ` set example_dict"
    by blast
  from 1 have 5: "batch_analyze_with failing_on_bad example_dict ''BAD'' = Some empty_result"
    by (simp add: f)
  from d g f 2 3 4 5 show ?thesis unfolding s by blast
qed

text \<open>
  C3: the grade of a Score is a function of total_points alone, by closed-lower-bound bands:
  [80,100] gives Excellent, [65,80) Strong, [50,65) Good, below 50 Weak; exactly 80 gives
  Excellent, exactly 65 Strong, exactly 50 Good and exactly 49 Weak.
\<close>

theorem grade_closed_lower_bound_bands:
  "setup_grade (make_score name tp) = assign_grade tp
   \<and> (80 \<le> tp \<and> tp \<le> 100 \<longrightarrow> assign_grade tp = Excellent)
   \<and> (65 \<le> tp \<and> tp < 80 \<longrightarrow> assign_grade tp = Strong)
   \<and> (50 \<le> tp \<and> tp < 65 \<longrightarrow> assign_grade tp = Good)
   \<and> (tp < 50 \<longrightarrow> assign_grade tp = Weak)
   \<and> assign_grade 80 = Excellent \<and> assign_grade 65 = Strong
   \<and> assign_grade 50 = Good \<and> assign_grade 49 = Weak"
  by (simp add: make_score_def assign_grade_def)

theorem grade_closed_lower_bound_bands_witness:
  "setup_grade (make_score ''TEST'' 79) = Strong \<and> setup_grade (make_score ''AAPL'' 79) = Strong
   \<and> assign_grade 100 = Excellent \<and> assign_grade 64 = Good \<and> assign_grade 0 = Weak"
proof -
  note a = grade_closed_lower_bound_bands [of "''TEST''" 79]
  note b = grade_closed_lower_bound_bands [of "''AAPL''" 79]
  note c = grade_closed_lower_bound_bands [of "''TEST''" 100]
  note d = grade_closed_lower_bound_bands [of "''TEST''" 64]
  note e = grade_closed_lower_bound_bands [of "''TEST''" 0]
  from a b c d e show ?thesis by simp
qed



text \<open>
  C6: for every symbol list and every max_workers in {1,2,4} the batch scorer returns, and
  what it returns is exactly the Scores of the symbols whose scoring gave a non-None result,
  in some order: a symbol whose scoring raises or returns None is omitted and the result is
  that of the list without it; the empty list gives the empty result; the returned Scores
  and symbols do not depend on max_workers; and on [A, B, C] with B raising exactly the
  Scores of A and C are returned.
\<close>

theorem score_many_returns_exactly_successful:
  "(score_many worker symbols max_workers result \<longrightarrow>
      mset result = mset (successful worker symbols))
   \<and> (0 < max_workers \<longrightarrow> (\<exists>res. score_many worker symbols max_workers res))
   \<and> (score_many worker [] max_workers result \<longrightarrow> result = [])
   \<and> (contained (worker bad) = None \<and> score_many worker symbols max_workers result \<longrightarrow>
        mset result = mset (successful worker (removeAll bad symbols)))
   \<and> (score_many worker symbols m1 r1 \<and> score_many worker symbols m2 r2 \<longrightarrow>
        mset r1 = mset r2 \<and> symbol ` set r1 = symbol ` set r2)
   \<and> (load bad = Raised \<longrightarrow> score_candidate load agg bad = None
        \<and> contained (Returned (score_candidate load agg bad)) = None)
   \<and> (worker bad = Raised \<longrightarrow> contained (worker bad) = None)
   \<and> (worker ''A'' = Returned (Some sa) \<and> worker ''B'' = Raised
        \<and> worker ''C'' = Returned (Some sc) \<and> max_workers \<in> {1, 2, 4} \<longrightarrow>
        (\<exists>res. score_many worker [''A'', ''B'', ''C''] max_workers res)
        \<and> (score_many worker [''A'', ''B'', ''C''] max_workers result \<longrightarrow>
             mset result = {#sa, sc#} \<and> length result = 2))"
proof -
  have collects: "mset r = mset (successful worker xs)" if "score_many worker xs m r" for xs m r
    using pool_run_collects [of worker m xs "[]" "[]" r] that by (simp add: score_many_def)
  have returns: "\<exists>res. score_many worker xs m res" if "0 < m" for xs m
    using pool_run_sequential [OF that, of worker xs "[]"] unfolding score_many_def by blast
  have 1: "score_many worker symbols max_workers result \<longrightarrow>
      mset result = mset (successful worker symbols)"
    using collects by blast
  have 2: "0 < max_workers \<longrightarrow> (\<exists>res. score_many worker symbols max_workers res)"
    using returns by blast
  have 3: "score_many worker [] max_workers result \<longrightarrow> result = []"
  proof
    assume "score_many worker [] max_workers result"
    from collects [OF this] show "result = []" by simp
  qed
  have 4: "contained (worker bad) = None \<and> score_many worker symbols max_workers result \<longrightarrow>
        mset result = mset (successful worker (removeAll bad symbols))"
  proof
    assume h: "contained (worker bad) = None \<and> score_many worker symbols max_workers result"
    then have "mset result = mset (successful worker symbols)" using collects by blast
    with h successful_omits [of worker bad symbols]
    show "mset result = mset (successful worker (removeAll bad symbols))" by simp
  qed
  have 5: "score_many worker symbols m1 r1 \<and> score_many worker symbols m2 r2 \<longrightarrow>
        mset r1 = mset r2 \<and> symbol ` set r1 = symbol ` set r2"
  proof
    assume h: "score_many worker symbols m1 r1 \<and> score_many worker symbols m2 r2"
    then have "mset r1 = mset (successful worker symbols)"
      "mset r2 = mset (successful worker symbols)"
      using collects by blast+
    then have "mset r1 = mset r2" by simp
    moreover from this have "set r1 = set r2" by (rule mset_eq_setD)
    ultimately show "mset r1 = mset r2 \<and> symbol ` set r1 = symbol ` set r2" by simp
  qed
  have 6: "load bad = Raised \<longrightarrow> score_candidate load agg bad = None
        \<and> contained (Returned (score_candidate load agg bad)) = None"
    by (simp add: score_candidate_def contained_def)
  have 7: "worker bad = Raised \<longrightarrow> contained (worker bad) = None"
    by (simp add: contained_def)
  have 8: "worker ''A'' = Returned (Some sa) \<and> worker ''B'' = Raised
        \<and> worker ''C'' = Returned (Some sc) \<and> max_workers \<in> {1, 2, 4} \<longrightarrow>
        (\<exists>res. score_many worker [''A'', ''B'', ''C''] max_workers res)
        \<and> (score_many worker [''A'', ''B'', ''C''] max_workers result \<longrightarrow>
             mset result = {#sa, sc#} \<and> length result = 2)"
  proof (intro impI conjI)
    assume h: "worker ''A'' = Returned (Some sa) \<and> worker ''B'' = Raised
        \<and> worker ''C'' = Returned (Some sc) \<and> max_workers \<in> {1, 2, 4}"
    then have "0 < max_workers" by auto
    then show "\<exists>res. score_many worker [''A'', ''B'', ''C''] max_workers res"
      using returns by blast
    from h have s: "successful worker [''A'', ''B'', ''C''] = [sa, sc]"
      by (simp add: contained_def)
    assume "score_many worker [''A'', ''B'', ''C''] max_workers result"
    from collects [OF this] have m: "mset result = mset [sa, sc]" by (simp only: s)
    then show "mset result = {#sa, sc#}" by simp
    from m have "length result = length [sa, sc]" by (rule mset_eq_length)
    then show "length result = 2" by simp
  qed
  show ?thesis by (intro conjI 1 2 3 4 5 6 7 8)
qed

theorem score_many_returns_exactly_successful_witness:
  "example_load ''B'' = Raised
   \<and> example_worker ''A'' = Returned (Some (make_score ''A'' 70))
   \<and> example_worker ''B'' = Returned None
   \<and> example_worker ''C'' = Returned (Some (make_score ''C'' 70))
   \<and> score_many example_worker [''A'', ''B'', ''C''] 2
        [make_score ''C'' 70, make_score ''A'' 70]
   \<and> mset [make_score ''C'' 70, make_score ''A'' 70]
        = mset (successful example_worker [''A'', ''B'', ''C''])
   \<and> successful example_worker [''A'', ''B'', ''C''] = [make_score ''A'' 70, make_score ''C'' 70]
   \<and> successful example_worker (removeAll ''B'' [''A'', ''B'', ''C''])
        = [make_score ''A'' 70, make_score ''C'' 70]
   \<and> (\<exists>res. score_many example_worker [''A'', ''B'', ''C''] 4 res)"
proof -
  have l: "example_load ''B'' = Raised" by (simp add: example_load_def)
  have a: "example_worker ''A'' = Returned (Some (make_score ''A'' 70))"
    and b: "example_worker ''B'' = Returned None"
    and c: "example_worker ''C'' = Returned (Some (make_score ''C'' 70))"
    by (simp_all add: example_worker_def score_candidate_def example_load_def
        example_score_symbol_def full_dataset_def)
  have s: "successful example_worker [''A'', ''B'', ''C''] = [make_score ''A'' 70, make_score ''C'' 70]"
    by (simp add: a b c contained_def)
  have s': "successful example_worker (removeAll ''B'' [''A'', ''B'', ''C''])
        = [make_score ''A'' 70, make_score ''C'' 70]"
    by (simp add: a b c contained_def)
  have sa: "successful example_worker [''A''] = [make_score ''A'' 70]"
    and sb: "successful example_worker [''B''] = []"
    and sc: "successful example_worker [''C''] = [make_score ''C'' 70]"
    by (simp_all add: a b c contained_def)
  have r0: "pool_run example_worker 2 [] [] [make_score ''C'' 70, make_score ''A'' 70]
      [make_score ''C'' 70, make_score ''A'' 70]"
    by (rule pool_run.finished)
  have r1: "pool_run example_worker 2 [] [''A''] [make_score ''C'' 70]
      [make_score ''C'' 70, make_score ''A'' 70]"
    by (rule pool_run.complete [where i = 0]) (simp_all add: sa r0 del: successful.simps)
  have r2: "pool_run example_worker 2 [] [''A'', ''C''] []
      [make_score ''C'' 70, make_score ''A'' 70]"
    by (rule pool_run.complete [where i = 1]) (simp_all add: sc r1 del: successful.simps)
  have r3: "pool_run example_worker 2 [''C''] [''A''] []
      [make_score ''C'' 70, make_score ''A'' 70]"
    by (rule pool_run.dispatch) (simp_all add: r2)
  have r4: "pool_run example_worker 2 [''C''] [''A'', ''B''] []
      [make_score ''C'' 70, make_score ''A'' 70]"
    by (rule pool_run.complete [where i = 1]) (simp_all add: sb r3 del: successful.simps)
  have r5: "pool_run example_worker 2 [''B'', ''C''] [''A''] []
      [make_score ''C'' 70, make_score ''A'' 70]"
    by (rule pool_run.dispatch) (simp_all add: r4)
  have r6: "pool_run example_worker 2 [''A'', ''B'', ''C''] [] []
      [make_score ''C'' 70, make_score ''A'' 70]"
    by (rule pool_run.dispatch) (simp_all add: r5)
  have run: "score_many example_worker [''A'', ''B'', ''C''] 2
        [make_score ''C'' 70, make_score ''A'' 70]"
    by (simp add: score_many_def r6)
  note t = score_many_returns_exactly_successful [of example_worker "[''A'', ''B'', ''C'']" 2
      "[make_score ''C'' 70, make_score ''A'' 70]"]
  note t4 = score_many_returns_exactly_successful [of example_worker "[''A'', ''B'', ''C'']" 4]
  from t [THEN conjunct1] run have m: "mset [make_score ''C'' 70, make_score ''A'' 70]
        = mset (successful example_worker [''A'', ''B'', ''C''])"
    by (rule mp)
  have "(0::nat) < 4" by simp
  with t4 [THEN conjunct2, THEN conjunct1]
  have e: "\<exists>res. score_many example_worker [''A'', ''B'', ''C''] 4 res"
    by (rule mp)
  show ?thesis by (intro conjI l a b c run m s s' e)
qed

text \<open>
  C2, as stated: every watchlist generate returns is strictly descending by total_points.
  This fails when two candidates that pass the threshold have the same total.
\<close>

theorem generate_strictly_descending_counterexample:
  "\<not> sorted_wrt (\<lambda>a b. total_points b < total_points a) (generate tie_env None False 10 65)"
  by (simp add: generate_def candidate_set_def tie_env_def rank_def make_score_def Let_def)

text \<open>
  C2, amended: in every watchlist generate returns each entry's total_points is at least
  min_score, the entries are descending by total_points (strictly when no two entries have
  the same total), and the length is at most max_symbols; over candidates scoring
  [85,70,60,45] with min_score 65 the result is the 85-point and the 70-point Score in
  that order.
\<close>

theorem generate_threshold_rank_cap:
  "(\<forall>s \<in> set (generate env universe_arg skip max_symbols min_score). min_score \<le> total_points s)
   \<and> sorted_wrt (\<lambda>a b. total_points b \<le> total_points a)
        (generate env universe_arg skip max_symbols min_score)
   \<and> (distinct (map total_points (generate env universe_arg skip max_symbols min_score)) \<longrightarrow>
        sorted_wrt (\<lambda>a b. total_points b < total_points a)
          (generate env universe_arg skip max_symbols min_score))
   \<and> length (generate env universe_arg skip max_symbols min_score) \<le> max_symbols
   \<and> (candidate_set env universe_arg skip \<noteq> []
        \<and> score_batch env (candidate_set env universe_arg skip) = [s85, s70, s60, s45]
        \<and> total_points s85 = 85 \<and> total_points s70 = 70 \<and> total_points s60 = 60
        \<and> total_points s45 = 45 \<and> 2 \<le> max_symbols \<longrightarrow>
        generate env universe_arg skip max_symbols 65 = [s85, s70])"
proof -
  define wl where "wl = generate env universe_arg skip max_symbols min_score"
  define passing where "passing =
     filter (\<lambda>s. \<not> total_points s < min_score) (score_batch env (candidate_set env universe_arg skip))"
  have wl: "wl = [] \<or> wl = take max_symbols (rank passing)"
    by (simp add: wl_def passing_def generate_def Let_def)
  have sub: "set wl \<subseteq> set passing"
    using wl set_take_subset [of max_symbols "rank passing"] by (auto simp: set_rank)
  have 1: "\<forall>s \<in> set wl. min_score \<le> total_points s"
    using sub by (auto simp: passing_def)
  have 2: "sorted_wrt (\<lambda>a b. total_points b \<le> total_points a) wl"
    using wl rank_descending [of passing] by (auto intro: sorted_wrt_take)
  have 3: "distinct (map total_points wl) \<longrightarrow> sorted_wrt (\<lambda>a b. total_points b < total_points a) wl"
    using 2 descending_distinct_strict by blast
  have 4: "length wl \<le> max_symbols"
    using wl by auto
  have 5: "candidate_set env universe_arg skip \<noteq> []
        \<and> score_batch env (candidate_set env universe_arg skip) = [s85, s70, s60, s45]
        \<and> total_points s85 = 85 \<and> total_points s70 = 70 \<and> total_points s60 = 60
        \<and> total_points s45 = 45 \<and> 2 \<le> max_symbols \<longrightarrow>
        generate env universe_arg skip max_symbols 65 = [s85, s70]"
    by (simp add: generate_def Let_def rank_def)
  show ?thesis
    using 1 2 3 4 5 unfolding wl_def by (intro conjI)
qed

theorem generate_threshold_rank_cap_witness:
  "generate example_env None False 10 65 = [make_score ''AAPL'' 85, make_score ''MSFT'' 70]
   \<and> generate tie_env None False 10 65 = [make_score ''AAPL'' 70, make_score ''MSFT'' 70]
   \<and> sorted_wrt (\<lambda>a b. total_points b \<le> total_points a) (generate tie_env None False 10 65)
   \<and> distinct (map total_points (generate example_env None False 10 65))
   \<and> sorted_wrt (\<lambda>a b. total_points b < total_points a) (generate example_env None False 10 65)
   \<and> length (generate example_env None False 1 65) \<le> 1"
proof -
  have c: "candidate_set example_env None False \<noteq> []
        \<and> score_batch example_env (candidate_set example_env None False)
            = [make_score ''AAPL'' 85, make_score ''MSFT'' 70, make_score ''GOOGL'' 60,
               make_score ''TSLA'' 45]
        \<and> total_points (make_score ''AAPL'' 85) = 85 \<and> total_points (make_score ''MSFT'' 70) = 70
        \<and> total_points (make_score ''GOOGL'' 60) = 60
        \<and> total_points (make_score ''TSLA'' 45) = 45 \<and> (2::nat) \<le> 10"
    by (simp add: candidate_set_def example_env_def make_score_def)
  note t = generate_threshold_rank_cap [of example_env None False 10 65
      "make_score ''AAPL'' 85" "make_score ''MSFT'' 70" "make_score ''GOOGL'' 60"
      "make_score ''TSLA'' 45"]
  from t c have g: "generate example_env None False 10 65
      = [make_score ''AAPL'' 85, make_score ''MSFT'' 70]"
    by blast
  have d: "distinct (map total_points (generate example_env None False 10 65))"
    by (simp add: g make_score_def)
  from t d have s: "sorted_wrt (\<lambda>a b. total_points b < total_points a)
      (generate example_env None False 10 65)"
    by blast
  have tie: "generate tie_env None False 10 65 = [make_score ''AAPL'' 70, make_score ''MSFT'' 70]"
    by (simp add: generate_def candidate_set_def tie_env_def rank_def make_score_def Let_def)
  note u = generate_threshold_rank_cap [of tie_env None False 10 65]
  from u have n: "sorted_wrt (\<lambda>a b. total_points b \<le> total_points a)
      (generate tie_env None False 10 65)"
    by blast
  note v = generate_threshold_rank_cap [of example_env None False 1 65]
  from v have l: "length (generate example_env None False 1 65) \<le> 1"
    by blast
  show ?thesis by (intro conjI g tie n d s l)
qed

end
